theory Spec2Isabelle
  imports Complex_Main "HOL-Library.Log_Nat"
begin

section \<open>The class-booking services: data model\<close>

text \<open>
  The development embeds \<^verbatim>\<open>src/services/booking_service.py\<close> and
  \<^verbatim>\<open>src/services/session_service.py\<close>. A table is the list of its rows in
  insertion order, \<^verbatim>\<open>query(...).first()\<close> is the first matching row,
  \<^verbatim>\<open>.all()\<close> the matching rows and \<^verbatim>\<open>.count()\<close> their number.

  A \<^verbatim>\<open>datetime\<close> is an integer number of microseconds (its resolution), and
  \<^verbatim>\<open>timedelta(hours=h)\<close> is \<open>hours h\<close>. The services call
  \<^verbatim>\<open>datetime.utcnow()\<close> several times during one operation: a \<open>clock\<close>
  gives the successive readings of one call, \<open>utcnow 0\<close> being the first.
\<close>

type_synonym datetime = int

type_synonym clock = "nat \<Rightarrow> datetime"

definition hours :: "int \<Rightarrow> int" where
  "hours h = h * 3600000000"

datatype BookingStatus = PENDING | CONFIRMED | CANCELLED | COMPLETED | NO_SHOW

datatype SessionStatus =
  SCHEDULED | ONGOING | SESSION_COMPLETED | SESSION_CANCELLED | POSTPONED

text \<open>
  Modelled from the spec: the SQLAlchemy models (\<^verbatim>\<open>database/models.py\<close>) are not
  among the sources. The rows follow the entities of section 3 of the specification and
  carry the columns that the two services read or write (\<^verbatim>\<open>id\<close>,
  \<^verbatim>\<open>status\<close> and \<^verbatim>\<open>updated_at\<close> are prefixed with the table, and
  \<^verbatim>\<open>Booking.notes\<close> is \<open>b_notes\<close>). The users table is not read by the
  operations below.
\<close>

record Class =
  c_id :: int
  max_capacity :: int

record SessionModel =
  s_id :: int
  class_id :: int
  start_time :: datetime
  end_time :: datetime
  location :: "string option"
  special_notes :: "string option"
  s_status :: SessionStatus
  created_by :: int
  s_updated_at :: "datetime option"

record Booking =
  b_id :: int
  user_id :: int
  session_id :: int
  b_notes :: "string option"
  b_status :: BookingStatus
  booking_date :: datetime
  admin_notes :: "string option"
  b_updated_at :: "datetime option"

record db =
  classes :: "Class list"
  sessions :: "SessionModel list"
  bookings :: "Booking list"

text \<open>
  The request schemas. A field of an update schema is either left unset or set;
  \<^verbatim>\<open>dict(exclude_unset=True)\<close> keeps the fields that were set. A nullable
  column (\<^verbatim>\<open>location\<close>, the notes) can be set to \<^verbatim>\<open>None\<close>; for
  the required columns (times, status) only a set value is modelled.
\<close>

datatype 'a upd = Unset | SetTo 'a

record BookingCreate =
  bc_session_id :: int
  bc_notes :: "string option"

record BookingUpdate =
  bu_status :: "BookingStatus upd"
  bu_notes :: "string option upd"
  bu_admin_notes :: "string option upd"

record SessionCreate =
  sc_class_id :: int
  sc_start_time :: datetime
  sc_end_time :: datetime
  sc_location :: "string option"
  sc_special_notes :: "string option"

record SessionUpdate =
  su_start_time :: "datetime upd"
  su_end_time :: "datetime upd"
  su_location :: "string option upd"
  su_special_notes :: "string option upd"
  su_status :: "SessionStatus upd"

text \<open>
  Every failure of the services is a \<^verbatim>\<open>ValueError\<close> with its message; reading an
  attribute of a missing related row (\<^verbatim>\<open>session.class_obj\<close>,
  \<^verbatim>\<open>booking.session\<close>) is an \<^verbatim>\<open>AttributeError\<close>, and the division of two
  integers raises \<^verbatim>\<open>ZeroDivisionError\<close> or \<^verbatim>\<open>OverflowError\<close>. The
  abbreviations name the failure kinds after the messages the source raises.
\<close>

datatype error = ValueError string | AttributeError | ZeroDivisionError | OverflowError

abbreviation NotFound :: error where
  "NotFound \<equiv> ValueError ''Session not found''"

abbreviation NotBookable :: error where
  "NotBookable \<equiv> ValueError ''Session is not available for booking''"

abbreviation PastSession :: error where
  "PastSession \<equiv> ValueError ''Cannot book past sessions''"

abbreviation CapacityExceeded :: error where
  "CapacityExceeded \<equiv> ValueError ''Session is fully booked''"

abbreviation DuplicateBooking :: error where
  "DuplicateBooking \<equiv> ValueError ''User already has a booking for this session''"

abbreviation DeadlinePassed :: error where
  "DeadlinePassed \<equiv> ValueError ''Booking deadline has passed''"

abbreviation UpdateForbidden :: error where
  "UpdateForbidden \<equiv> ValueError ''User can only update their own bookings''"

abbreviation CancelForbidden :: error where
  "CancelForbidden \<equiv> ValueError ''User can only cancel their own bookings''"

abbreviation CancelDeadlinePassed :: error where
  "CancelDeadlinePassed \<equiv> ValueError ''Cancellation deadline has passed''"

abbreviation InvalidTransition :: error where
  "InvalidTransition \<equiv> ValueError ''Only pending bookings can be confirmed''"

abbreviation TooEarly :: error where
  "TooEarly \<equiv> ValueError ''Cannot mark attendance for future sessions''"

abbreviation ClassNotFound :: error where
  "ClassNotFound \<equiv> ValueError ''Class not found''"

abbreviation SchedulingConflict :: error where
  "SchedulingConflict \<equiv> ValueError ''Session conflicts with existing sessions''"

abbreviation UpdateSchedulingConflict :: error where
  "UpdateSchedulingConflict \<equiv> ValueError ''Updated session conflicts with existing sessions''"

section \<open>Helpers: truthiness, attribute reads, row updates\<close>

text \<open>Python truthiness of an optional integer and of an optional string.\<close>

fun truthy_int :: "int option \<Rightarrow> bool" where
  "truthy_int None = False"
| "truthy_int (Some n) = (n \<noteq> 0)"

fun truthy_str :: "string option \<Rightarrow> bool" where
  "truthy_str None = False"
| "truthy_str (Some s) = (s \<noteq> [])"

text \<open>\<^verbatim>\<open>a or b\<close> on optional strings.\<close>

definition or_str :: "string option \<Rightarrow> string option \<Rightarrow> string option" where
  "or_str a b = (if truthy_str a then a else b)"

text \<open>\<^verbatim>\<open>a or 'literal'\<close> inside an f-string: the string that is printed.\<close>

definition str_or :: "string option \<Rightarrow> string \<Rightarrow> string" where
  "str_or a dflt = (case a of None \<Rightarrow> dflt | Some s \<Rightarrow> if s = [] then dflt else s)"

text \<open>Reading a field of an update schema: an unset field reads as \<^verbatim>\<open>None\<close>.\<close>

fun attr_req :: "'a upd \<Rightarrow> 'a option" where
  "attr_req Unset = None"
| "attr_req (SetTo v) = Some v"

fun attr_opt :: "'a option upd \<Rightarrow> 'a option" where
  "attr_opt Unset = None"
| "attr_opt (SetTo v) = v"

text \<open>\<^verbatim>\<open>setattr\<close> for the fields of \<^verbatim>\<open>dict(exclude_unset=True)\<close>.\<close>

fun apply_upd :: "'a upd \<Rightarrow> 'a \<Rightarrow> 'a" where
  "apply_upd Unset old = old"
| "apply_upd (SetTo v) old = v"

text \<open>
  The ORM object returned by \<^verbatim>\<open>first()\<close> is the row itself: a mutation of it,
  once committed, replaces the first row that matches.
\<close>

fun update_first :: "('a \<Rightarrow> bool) \<Rightarrow> ('a \<Rightarrow> 'a) \<Rightarrow> 'a list \<Rightarrow> 'a list" where
  "update_first P f [] = []"
| "update_first P f (x # xs) = (if P x then f x # xs else x # update_first P f xs)"

text \<open>
  Modelled from the spec: the Entity Store of section 2 persists a new row and assigns its
  primary key; the key is taken to be the auto-incremented one, an identifier above
  every identifier in the table, starting at 1.
\<close>

definition fresh_id :: "int list \<Rightarrow> int" where
  "fresh_id ids = fold max ids 0 + 1"

definition active :: "BookingStatus \<Rightarrow> bool" where
  "active st = (st = PENDING \<or> st = CONFIRMED)"

definition get_session :: "db \<Rightarrow> int \<Rightarrow> SessionModel option" where
  "get_session d sid = find (\<lambda>s. s_id s = sid) (sessions d)"

definition get_booking :: "db \<Rightarrow> int \<Rightarrow> Booking option" where
  "get_booking d bid = find (\<lambda>b. b_id b = bid) (bookings d)"

text \<open>The relationship \<^verbatim>\<open>session.class_obj\<close>.\<close>

definition class_obj :: "db \<Rightarrow> SessionModel \<Rightarrow> Class option" where
  "class_obj d s = find (\<lambda>c. c_id c = class_id s) (classes d)"

definition get_session_booking_count :: "db \<Rightarrow> int \<Rightarrow> nat" where
  "get_session_booking_count d sid =
     length (filter (\<lambda>b. session_id b = sid \<and> active (b_status b)) (bookings d))"

section \<open>The booking service\<close>

definition create_booking ::
  "db \<Rightarrow> clock \<Rightarrow> BookingCreate \<Rightarrow> int \<Rightarrow> error + (db \<times> Booking)" where
  "create_booking d utcnow booking_data uid =
     (case get_session d (bc_session_id booking_data) of
        None \<Rightarrow> Inl NotFound
      | Some session \<Rightarrow>
          if s_status session \<noteq> SCHEDULED then Inl NotBookable
          else if start_time session \<le> utcnow 0 then Inl PastSession
          else (case class_obj d session of
            None \<Rightarrow> Inl AttributeError
          | Some c \<Rightarrow>
              if int (get_session_booking_count d (bc_session_id booking_data)) \<ge> max_capacity c
              then Inl CapacityExceeded
              else if find (\<lambda>b. user_id b = uid
                          \<and> session_id b = bc_session_id booking_data
                          \<and> active (b_status b)) (bookings d) \<noteq> None
              then Inl DuplicateBooking
              else if utcnow 1 > start_time session - hours 2 then Inl DeadlinePassed
              else
                let db_booking = \<lparr> b_id = fresh_id (map b_id (bookings d)),
                                   user_id = uid,
                                   session_id = bc_session_id booking_data,
                                   b_notes = bc_notes booking_data,
                                   b_status = PENDING,
                                   booking_date = utcnow 2,
                                   admin_notes = None,
                                   b_updated_at = None \<rparr>
                in Inr (d\<lparr>bookings := bookings d @ [db_booking]\<rparr>, db_booking)))"

text \<open>
  \<^verbatim>\<open>if user_id and booking.user_id != user_id\<close>: the ownership test of
  \<^verbatim>\<open>update_booking\<close> and \<^verbatim>\<open>cancel_booking\<close>.
\<close>

definition not_owner :: "int option \<Rightarrow> Booking \<Rightarrow> bool" where
  "not_owner uid booking = (truthy_int uid \<and> Some (user_id booking) \<noteq> uid)"

definition update_booking ::
  "db \<Rightarrow> clock \<Rightarrow> int \<Rightarrow> BookingUpdate \<Rightarrow> int option \<Rightarrow> error + (db \<times> Booking option)" where
  "update_booking d utcnow bid booking_data uid =
     (case get_booking d bid of
        None \<Rightarrow> Inr (d, None)
      | Some booking \<Rightarrow>
          if not_owner uid booking then Inl UpdateForbidden
          else
            let booking' = booking\<lparr> b_status := apply_upd (bu_status booking_data) (b_status booking),
                                     b_notes := apply_upd (bu_notes booking_data) (b_notes booking),
                                     admin_notes := apply_upd (bu_admin_notes booking_data) (admin_notes booking),
                                     b_updated_at := Some (utcnow 0) \<rparr>
            in Inr (d\<lparr>bookings := update_first (\<lambda>b. b_id b = bid) (\<lambda>_. booking') (bookings d)\<rparr>,
                    Some booking'))"

text \<open>
  The f-string \<^verbatim>\<open>f"{booking.admin_notes or ''}\nCancellation reason: {reason}"\<close>.
\<close>

definition cancellation_note :: "string option \<Rightarrow> string \<Rightarrow> string" where
  "cancellation_note old reason = str_or old [] @ CHR 0x0A # ''Cancellation reason: '' @ reason"

definition cancel_booking ::
  "db \<Rightarrow> clock \<Rightarrow> int \<Rightarrow> int option \<Rightarrow> string option \<Rightarrow> error + (db \<times> bool)" where
  "cancel_booking d utcnow bid uid reason =
     (case get_booking d bid of
        None \<Rightarrow> Inr (d, False)
      | Some booking \<Rightarrow>
          if not_owner uid booking then Inl CancelForbidden
          else (case get_session d (session_id booking) of
            None \<Rightarrow> Inl AttributeError
          | Some session \<Rightarrow>
              if utcnow 0 > start_time session - hours 4 \<and> truthy_int uid
              then Inl CancelDeadlinePassed
              else
                let booking' = booking\<lparr> b_status := CANCELLED,
                                         b_updated_at := Some (utcnow 1) \<rparr>;
                    booking'' = (case reason of
                                   None \<Rightarrow> booking'
                                 | Some r \<Rightarrow>
                                     if r = [] then booking'
                                     else booking'\<lparr> admin_notes :=
                                            Some (cancellation_note (admin_notes booking') r) \<rparr>)
                in Inr (d\<lparr>bookings := update_first (\<lambda>b. b_id b = bid) (\<lambda>_. booking'') (bookings d)\<rparr>,
                        True)))"

definition confirm_booking :: "db \<Rightarrow> clock \<Rightarrow> int \<Rightarrow> error + (db \<times> bool)" where
  "confirm_booking d utcnow bid =
     (case get_booking d bid of
        None \<Rightarrow> Inr (d, False)
      | Some booking \<Rightarrow>
          if b_status booking \<noteq> PENDING then Inl InvalidTransition
          else Inr (d\<lparr>bookings := update_first (\<lambda>b. b_id b = bid)
                        (\<lambda>_. booking\<lparr> b_status := CONFIRMED, b_updated_at := Some (utcnow 0) \<rparr>)
                        (bookings d)\<rparr>, True))"

definition mark_attendance :: "db \<Rightarrow> clock \<Rightarrow> int \<Rightarrow> bool \<Rightarrow> error + (db \<times> bool)" where
  "mark_attendance d utcnow bid attended =
     (case get_booking d bid of
        None \<Rightarrow> Inr (d, False)
      | Some booking \<Rightarrow>
          (case get_session d (session_id booking) of
            None \<Rightarrow> Inl AttributeError
          | Some session \<Rightarrow>
              if start_time session > utcnow 0 then Inl TooEarly
              else Inr (d\<lparr>bookings := update_first (\<lambda>b. b_id b = bid)
                            (\<lambda>_. booking\<lparr> b_status := (if attended then COMPLETED else NO_SHOW),
                                           b_updated_at := Some (utcnow 1) \<rparr>)
                            (bookings d)\<rparr>, True)))"

section \<open>The session service\<close>

text \<open>
  The time filter of \<^verbatim>\<open>check_scheduling_conflicts\<close>: the \<^verbatim>\<open>or_\<close> of its
  three \<^verbatim>\<open>and_\<close> clauses, for a stored session \<open>s\<close> and the requested range.
\<close>

definition time_clash :: "SessionModel \<Rightarrow> datetime \<Rightarrow> datetime \<Rightarrow> bool" where
  "time_clash s start end =
     ((start_time s \<le> start \<and> end_time s > start)
      \<or> (start_time s < end \<and> end_time s \<ge> end)
      \<or> (start_time s \<ge> start \<and> end_time s \<le> end))"

text \<open>
  The filters are SQL predicates: \<^verbatim>\<open>SessionModel.location == location\<close> is not true
  of a row whose location is \<^verbatim>\<open>NULL\<close>. The location filter is added when
  \<^verbatim>\<open>location\<close> is truthy, the exclusion when \<^verbatim>\<open>exclude_session_id\<close> is.
\<close>

definition check_scheduling_conflicts ::
  "db \<Rightarrow> datetime \<Rightarrow> datetime \<Rightarrow> string option \<Rightarrow> int option \<Rightarrow> SessionModel list" where
  "check_scheduling_conflicts d start end loc exclude_session_id =
     filter (\<lambda>s. (s_status s = SCHEDULED \<or> s_status s = ONGOING)
                 \<and> time_clash s start end
                 \<and> (if truthy_str loc then location s = loc else True)
                 \<and> (if truthy_int exclude_session_id
                     then Some (s_id s) \<noteq> exclude_session_id else True))
            (sessions d)"

definition create_session ::
  "db \<Rightarrow> SessionCreate \<Rightarrow> int \<Rightarrow> error + (db \<times> SessionModel)" where
  "create_session d session_data creator =
     (case find (\<lambda>c. c_id c = sc_class_id session_data) (classes d) of
        None \<Rightarrow> Inl ClassNotFound
      | Some c \<Rightarrow>
          if check_scheduling_conflicts d (sc_start_time session_data)
               (sc_end_time session_data) (sc_location session_data) None \<noteq> []
          then Inl SchedulingConflict
          else
            let db_session = \<lparr> s_id = fresh_id (map s_id (sessions d)),
                               class_id = sc_class_id session_data,
                               start_time = sc_start_time session_data,
                               end_time = sc_end_time session_data,
                               location = sc_location session_data,
                               special_notes = sc_special_notes session_data,
                               s_status = SCHEDULED,
                               created_by = creator,
                               s_updated_at = None \<rparr>
            in Inr (d\<lparr>sessions := sessions d @ [db_session]\<rparr>, db_session))"

text \<open>
  \<^verbatim>\<open>update_session\<close>: the conflict check runs under
  \<^verbatim>\<open>if session_data.start_time or session_data.end_time\<close> (a \<^verbatim>\<open>datetime\<close> is
  always truthy), on \<^verbatim>\<open>session_data.start_time or session.start_time\<close>, the same for
  the end, and \<^verbatim>\<open>session_data.location or session.location\<close>.
\<close>

definition merged_time :: "datetime upd \<Rightarrow> datetime \<Rightarrow> datetime" where
  "merged_time u old = (case attr_req u of None \<Rightarrow> old | Some v \<Rightarrow> v)"

definition update_session ::
  "db \<Rightarrow> clock \<Rightarrow> int \<Rightarrow> SessionUpdate \<Rightarrow> error + (db \<times> SessionModel option)" where
  "update_session d utcnow sid session_data =
     (case get_session d sid of
        None \<Rightarrow> Inr (d, None)
      | Some session \<Rightarrow>
          if (attr_req (su_start_time session_data) \<noteq> None
                \<or> attr_req (su_end_time session_data) \<noteq> None)
             \<and> check_scheduling_conflicts d
                  (merged_time (su_start_time session_data) (start_time session))
                  (merged_time (su_end_time session_data) (end_time session))
                  (or_str (attr_opt (su_location session_data)) (location session))
                  (Some sid) \<noteq> []
          then Inl UpdateSchedulingConflict
          else
            let session' = session\<lparr>
                  start_time := apply_upd (su_start_time session_data) (start_time session),
                  end_time := apply_upd (su_end_time session_data) (end_time session),
                  location := apply_upd (su_location session_data) (location session),
                  special_notes := apply_upd (su_special_notes session_data) (special_notes session),
                  s_status := apply_upd (su_status session_data) (s_status session),
                  s_updated_at := Some (utcnow 0) \<rparr>
            in Inr (d\<lparr>sessions := update_first (\<lambda>s. s_id s = sid) (\<lambda>_. session') (sessions d)\<rparr>,
                    Some session'))"

text \<open>
  The f-string
  \<^verbatim>\<open>f"{session.special_notes or ''}\nCancelled: {reason or 'No reason provided'}"\<close>.
\<close>

definition cancelled_note :: "string option \<Rightarrow> string option \<Rightarrow> string" where
  "cancelled_note old reason =
     str_or old [] @ CHR 0x0A # ''Cancelled: '' @ str_or reason ''No reason provided''"

text \<open>
  The loop of \<^verbatim>\<open>cancel_session\<close> over the active bookings of the session: each
  one is cancelled and stamped with its own reading of the clock, \<open>k\<close> counting the
  readings taken so far.
\<close>

fun cancel_bookings :: "clock \<Rightarrow> nat \<Rightarrow> int \<Rightarrow> Booking list \<Rightarrow> Booking list" where
  "cancel_bookings utcnow k sid [] = []"
| "cancel_bookings utcnow k sid (b # bs) =
     (if session_id b = sid \<and> active (b_status b)
      then b\<lparr> b_status := CANCELLED, b_updated_at := Some (utcnow k) \<rparr>
             # cancel_bookings utcnow (Suc k) sid bs
      else b # cancel_bookings utcnow k sid bs)"

definition cancel_session :: "db \<Rightarrow> clock \<Rightarrow> int \<Rightarrow> string option \<Rightarrow> db \<times> bool" where
  "cancel_session d utcnow sid reason =
     (case get_session d sid of
        None \<Rightarrow> (d, False)
      | Some session \<Rightarrow>
          let session' = session\<lparr> s_status := SESSION_CANCELLED,
                                   special_notes := Some (cancelled_note (special_notes session) reason),
                                   s_updated_at := Some (utcnow 0) \<rparr>
          in (d\<lparr> sessions := update_first (\<lambda>s. s_id s = sid) (\<lambda>_. session') (sessions d),
                  bookings := cancel_bookings utcnow 1 sid (bookings d) \<rparr>, True))"

definition mark_session_completed :: "db \<Rightarrow> clock \<Rightarrow> int \<Rightarrow> db \<times> bool" where
  "mark_session_completed d utcnow sid =
     (case get_session d sid of
        None \<Rightarrow> (d, False)
      | Some session \<Rightarrow>
          (d\<lparr> sessions := update_first (\<lambda>s. s_id s = sid)
                 (\<lambda>_. session\<lparr> s_status := SESSION_COMPLETED, s_updated_at := Some (utcnow 0) \<rparr>)
                 (sessions d) \<rparr>, True))"

section \<open>Python floats\<close>

text \<open>
  A Python float is an IEEE 754 binary64 number. The floats of the statistics are finite
  and not negative; such a number is \<open>m * 2 ^ e\<close> for a natural mantissa \<open>m\<close> of at
  most 53 bits and an integer exponent \<open>e\<close> of at least \<open>-1074\<close>, and is written as
  the pair \<open>(m, e)\<close>.
\<close>

type_synonym float64 = "nat \<times> int"

definition float_value :: "float64 \<Rightarrow> real" where
  "float_value f =
     (case f of (m, e) \<Rightarrow>
        if 0 \<le> e then real (m * 2 ^ nat e) else real m / real (2 ^ nat (- e)))"

text \<open>The integer nearest to \<open>n / d\<close>, a tie going to the even one.\<close>

definition round_half_even :: "nat \<Rightarrow> nat \<Rightarrow> nat" where
  "round_half_even n d =
     (let q = n div d; r = n mod d
      in if 2 * r < d then q
         else if d < 2 * r then q + 1
         else if even q then q else q + 1)"

text \<open>
  The integer \<open>k\<close> with \<open>2 ^ k \<le> p / q < 2 ^ (k + 1)\<close>, for positive \<open>p\<close> and
  \<open>q\<close>, from the bit lengths of the two numbers.
\<close>

definition floor_log2 :: "nat \<Rightarrow> nat \<Rightarrow> int" where
  "floor_log2 p q =
     (let k = int (floorlog 2 p) - int (floorlog 2 q)
      in if (if 0 \<le> k then q * 2 ^ nat k \<le> p else q \<le> p * 2 ^ nat (- k)) then k else k - 1)"

text \<open>
  The float nearest to the quotient \<open>p / q\<close> of two naturals (\<open>q\<close> positive), ties
  to the even mantissa: the rounding that every binary64 operation applies to its exact
  result. The exponent leaves 53 bits to the mantissa and is at least \<open>-1074\<close>, where
  the numbers become subnormal.
\<close>

definition nearest_float :: "nat \<Rightarrow> nat \<Rightarrow> float64" where
  "nearest_float p q =
     (if p = 0 then (0, 0)
      else
        let e = max (floor_log2 p q - 52) (- 1074)
        in (if 0 \<le> e then round_half_even p (q * 2 ^ nat e)
            else round_half_even (p * 2 ^ nat (- e)) q, e))"

text \<open>
  \<^verbatim>\<open>a / b\<close> on two integers that are not negative (the operands below are lengths of
  lists): the correctly rounded quotient, \<^verbatim>\<open>ZeroDivisionError\<close> for a zero divisor
  and \<^verbatim>\<open>OverflowError\<close> when the result is beyond the finite floats.
\<close>

definition truediv :: "nat \<Rightarrow> nat \<Rightarrow> error + float64" where
  "truediv a b =
     (if b = 0 then Inl ZeroDivisionError
      else
        case nearest_float a b of (m, e) \<Rightarrow>
          if 0 \<le> e \<and> 2 ^ 1024 \<le> m * 2 ^ nat e then Inl OverflowError else Inr (m, e))"

text \<open>
  \<^verbatim>\<open>x * n\<close> for a float and an integer converts the integer to a float and multiplies
  two floats; the product is the float nearest to the exact product (for a product
  within the finite floats, which a rate of at most 100 is).
\<close>

definition float_of_nat :: "nat \<Rightarrow> float64" where
  "float_of_nat n = nearest_float n 1"

definition fmul :: "float64 \<Rightarrow> float64 \<Rightarrow> float64" where
  "fmul x y =
     (case x of (m1, e1) \<Rightarrow> case y of (m2, e2) \<Rightarrow>
        if 0 \<le> e1 + e2 then nearest_float (m1 * m2 * 2 ^ nat (e1 + e2)) 1
        else nearest_float (m1 * m2) (2 ^ nat (- (e1 + e2))))"

section \<open>Booking statistics\<close>

text \<open>
  \<^verbatim>\<open>get_booking_stats\<close>. The two rates are the values of the floats that
  \<^verbatim>\<open>completed_bookings / total_bookings * 100\<close> and
  \<^verbatim>\<open>no_shows / total_bookings * 100\<close> compute; the integer 0 of the other branch is
  the float 0.
\<close>

record BookingStats =
  total_bookings :: nat
  confirmed_bookings :: nat
  cancelled_bookings :: nat
  pending_bookings :: nat
  completion_rate :: real
  no_show_rate :: real

definition in_window :: "datetime option \<Rightarrow> datetime option \<Rightarrow> Booking \<Rightarrow> bool" where
  "in_window start_date end_date b =
     ((case start_date of None \<Rightarrow> True | Some sd \<Rightarrow> booking_date b \<ge> sd)
      \<and> (case end_date of None \<Rightarrow> True | Some ed \<Rightarrow> booking_date b \<le> ed))"

definition get_booking_stats ::
  "db \<Rightarrow> datetime option \<Rightarrow> datetime option \<Rightarrow> error + BookingStats" where
  "get_booking_stats d start_date end_date =
     (let bs = filter (in_window start_date end_date) (bookings d);
          total = length bs;
          confirmed = length (filter (\<lambda>b. b_status b = CONFIRMED) bs);
          cancelled = length (filter (\<lambda>b. b_status b = CANCELLED) bs);
          pending = length (filter (\<lambda>b. b_status b = PENDING) bs);
          completed = length (filter (\<lambda>b. b_status b = COMPLETED) bs);
          no_shows = length (filter (\<lambda>b. b_status b = NO_SHOW) bs)
      in case (if total > 0
               then (case truediv completed total of
                       Inl err \<Rightarrow> Inl err
                     | Inr q \<Rightarrow> Inr (float_value (fmul q (float_of_nat 100))))
               else Inr 0) of
           Inl err \<Rightarrow> Inl err
         | Inr completion \<Rightarrow>
             (case (if total > 0
                    then (case truediv no_shows total of
                            Inl err \<Rightarrow> Inl err
                          | Inr q \<Rightarrow> Inr (float_value (fmul q (float_of_nat 100))))
                    else Inr 0) of
                Inl err \<Rightarrow> Inl err
              | Inr no_show \<Rightarrow>
                  Inr \<lparr> total_bookings = total,
                        confirmed_bookings = confirmed,
                        cancelled_bookings = cancelled,
                        pending_bookings = pending,
                        completion_rate = completion,
                        no_show_rate = no_show \<rparr>))"

section \<open>Sequences of operations\<close>

text \<open>
  The mutating operations of the two services as commands. A call that raises commits
  nothing: every \<^verbatim>\<open>raise\<close> of the services stands before the first mutation.
\<close>

datatype op =
    CreateSession SessionCreate int
  | UpdateSession int SessionUpdate
  | CancelSession int "string option"
  | MarkSessionCompleted int
  | CreateBooking BookingCreate int
  | UpdateBooking int BookingUpdate "int option"
  | CancelBooking int "int option" "string option"
  | ConfirmBooking int
  | MarkAttendance int bool

definition committed :: "db \<Rightarrow> error + (db \<times> 'a) \<Rightarrow> db" where
  "committed d r = (case r of Inl e \<Rightarrow> d | Inr (d', x) \<Rightarrow> d')"

fun exec :: "db \<Rightarrow> clock \<Rightarrow> op \<Rightarrow> db" where
  "exec d clk (CreateSession session_data creator) = committed d (create_session d session_data creator)"
| "exec d clk (UpdateSession sid session_data) = committed d (update_session d clk sid session_data)"
| "exec d clk (CancelSession sid reason) = fst (cancel_session d clk sid reason)"
| "exec d clk (MarkSessionCompleted sid) = fst (mark_session_completed d clk sid)"
| "exec d clk (CreateBooking booking_data uid) = committed d (create_booking d clk booking_data uid)"
| "exec d clk (UpdateBooking bid booking_data uid) = committed d (update_booking d clk bid booking_data uid)"
| "exec d clk (CancelBooking bid uid reason) = committed d (cancel_booking d clk bid uid reason)"
| "exec d clk (ConfirmBooking bid) = committed d (confirm_booking d clk bid)"
| "exec d clk (MarkAttendance bid attended) = committed d (mark_attendance d clk bid attended)"

fun run :: "db \<Rightarrow> (clock \<times> op) list \<Rightarrow> db" where
  "run d [] = d"
| "run d ((clk, c) # cs) = run (exec d clk c) cs"

text \<open>
  The capacity invariant of one session, and of the store: the active bookings of every
  session are at most the capacity of its class.
\<close>

definition within_capacity :: "db \<Rightarrow> SessionModel \<Rightarrow> bool" where
  "within_capacity d s =
     (case class_obj d s of
        None \<Rightarrow> True
      | Some c \<Rightarrow> int (get_session_booking_count d (s_id s)) \<le> max_capacity c)"

definition capacity_inv :: "db \<Rightarrow> bool" where
  "capacity_inv d = list_all (within_capacity d) (sessions d)"

text \<open>
  Integrity of the store, as its keys and the class schema give it: session identifiers
  are unique, every booking refers to a stored session, and every class has
  \<^verbatim>\<open>max_capacity >= 1\<close> (\<^verbatim>\<open>ClassBase\<close>).
\<close>

definition store_ok :: "db \<Rightarrow> bool" where
  "store_ok d =
     (distinct (map s_id (sessions d))
      \<and> list_all (\<lambda>b. session_id b \<in> set (map s_id (sessions d))) (bookings d)
      \<and> list_all (\<lambda>c. 1 \<le> max_capacity c) (classes d))"

text \<open>
  An \<^verbatim>\<open>update_booking\<close> call reactivates a booking when it finds one that is not
  active and its patch sets the status to PENDING or CONFIRMED.
\<close>

fun reactivates :: "db \<Rightarrow> op \<Rightarrow> bool" where
  "reactivates d (UpdateBooking bid booking_data uid) =
     (case get_booking d bid of
        None \<Rightarrow> False
      | Some b \<Rightarrow> \<not> active (b_status b)
                  \<and> (case bu_status booking_data of Unset \<Rightarrow> False | SetTo st \<Rightarrow> active st))"
| "reactivates d c = False"

fun no_reactivation :: "db \<Rightarrow> (clock \<times> op) list \<Rightarrow> bool" where
  "no_reactivation d [] = True"
| "no_reactivation d ((clk, c) # cs) = (\<not> reactivates d c \<and> no_reactivation (exec d clk c) cs)"

text \<open>
  The terminal states of a booking, and the commands that cannot move a booking out of
  one: every command but \<^verbatim>\<open>cancel_booking\<close>, \<^verbatim>\<open>mark_attendance\<close> and an
  \<^verbatim>\<open>update_booking\<close> whose patch sets the status.
\<close>

definition terminal :: "BookingStatus \<Rightarrow> bool" where
  "terminal st = (st = CANCELLED \<or> st = COMPLETED \<or> st = NO_SHOW)"

fun keeps_status :: "op \<Rightarrow> bool" where
  "keeps_status (CancelBooking bid uid reason) = False"
| "keeps_status (MarkAttendance bid attended) = False"
| "keeps_status (UpdateBooking bid booking_data uid) = (bu_status booking_data = Unset)"
| "keeps_status c = True"

section \<open>Example stores\<close>

text \<open>A clock that does not advance during a call.\<close>

definition fixed_clock :: "datetime \<Rightarrow> clock" where
  "fixed_clock t k = t"

text \<open>
  A class of capacity 1 with one session in room A from hour 100 to hour 101, and a
  booking of user 7 on it.
\<close>

definition yoga :: Class where
  "yoga = \<lparr> c_id = 1, max_capacity = 1 \<rparr>"

definition morning :: SessionModel where
  "morning = \<lparr> s_id = 1, class_id = 1, start_time = hours 100, end_time = hours 101,
               location = Some ''Room A'', special_notes = None, s_status = SCHEDULED,
               created_by = 1, s_updated_at = None \<rparr>"

definition seat :: Booking where
  "seat = \<lparr> b_id = 1, user_id = 7, session_id = 1, b_notes = None, b_status = PENDING,
            booking_date = hours 90, admin_notes = None, b_updated_at = None \<rparr>"

definition empty_studio :: db where
  "empty_studio = \<lparr> classes = [yoga], sessions = [], bookings = [] \<rparr>"

definition studio :: db where
  "studio = \<lparr> classes = [yoga], sessions = [morning], bookings = [] \<rparr>"

definition studio_full :: db where
  "studio_full = \<lparr> classes = [yoga], sessions = [morning], bookings = [seat] \<rparr>"

text \<open>The same session without a location.\<close>

definition park :: db where
  "park = \<lparr> classes = [yoga], sessions = [morning\<lparr> location := None \<rparr>], bookings = [] \<rparr>"

text \<open>Two sessions at the same time in rooms A and B.\<close>

definition two_rooms :: db where
  "two_rooms = \<lparr> classes = [yoga],
                  sessions = [morning, morning\<lparr> s_id := 2, location := Some ''Room B'' \<rparr>],
                  bookings = [] \<rparr>"

text \<open>The session with a completed booking.\<close>

definition history :: db where
  "history = \<lparr> classes = [yoga], sessions = [morning],
                bookings = [seat\<lparr> b_status := COMPLETED \<rparr>] \<rparr>"

text \<open>Twenty bookings, eleven of them completed.\<close>

definition ledger :: db where
  "ledger = \<lparr> classes = [yoga], sessions = [morning],
               bookings = replicate 11 (seat\<lparr> b_status := COMPLETED \<rparr>)
                          @ replicate 9 (seat\<lparr> b_status := CANCELLED \<rparr>) \<rparr>"



definition morning_request :: "string option \<Rightarrow> SessionCreate" where
  "morning_request loc = \<lparr> sc_class_id = 1, sc_start_time = hours 100, sc_end_time = hours 101,
                            sc_location = loc, sc_special_notes = None \<rparr>"

definition seat_request :: BookingCreate where
  "seat_request = \<lparr> bc_session_id = 1, bc_notes = None \<rparr>"

text \<open>
  A session is created, user 7 books and cancels, user 8 books; then a generic update
  sets the cancelled booking of user 7 to CONFIRMED.
\<close>

definition rebooked :: "(clock \<times> op) list" where
  "rebooked = [(fixed_clock (hours 90), CreateSession (morning_request (Some ''Room A'')) 1),
               (fixed_clock (hours 90), CreateBooking seat_request 7),
               (fixed_clock (hours 91), CancelBooking 1 (Some 7) None),
               (fixed_clock (hours 92), CreateBooking seat_request 8)]"

definition reconfirm :: "clock \<times> op" where
  "reconfirm = (fixed_clock (hours 93),
                UpdateBooking 1 \<lparr> bu_status = SetTo CONFIRMED, bu_notes = Unset,
                                  bu_admin_notes = Unset \<rparr> None)"

section \<open>Lemmas about the helpers\<close>

lemma find_SomeD: "find P xs = Some y \<Longrightarrow> y \<in> set xs \<and> P y"
  by (induction xs) (auto split: if_splits)

lemma length_update_first: "length (update_first P f xs) = length xs"
  by (induction xs) auto

lemma find_update_first:
  "find P xs = Some x \<Longrightarrow> P y \<Longrightarrow> find P (update_first P (\<lambda>_. y) xs) = Some y"
  by (induction xs) (auto split: if_splits)

lemma update_first_nth:
  "find P xs = Some x \<Longrightarrow> i < length xs \<Longrightarrow>
     update_first P (\<lambda>_. y) xs ! i = xs ! i
     \<or> (xs ! i = x \<and> update_first P (\<lambda>_. y) xs ! i = y)"
proof (induction xs arbitrary: i)
  case Nil
  then show ?case by simp
next
  case (Cons a xs)
  show ?case
  proof (cases "P a")
    case True
    with Cons.prems show ?thesis by (cases i) auto
  next
    case False
    with Cons show ?thesis by (cases i) auto
  qed
qed

lemma terminal_iff: "terminal st = (\<not> active st)"
  by (cases st) (auto simp: terminal_def active_def)

lemma length_cancel_bookings: "length (cancel_bookings utcnow k sid bs) = length bs"
  by (induction bs arbitrary: k) auto

lemma cancel_bookings_nth:
  "i < length bs \<Longrightarrow>
     (if session_id (bs ! i) = sid \<and> active (b_status (bs ! i))
      then \<exists>j\<ge>k. cancel_bookings utcnow k sid bs ! i
                  = (bs ! i)\<lparr> b_status := CANCELLED, b_updated_at := Some (utcnow j) \<rparr>
      else cancel_bookings utcnow k sid bs ! i = bs ! i)"
proof (induction bs arbitrary: k i)
  case Nil
  then show ?case by simp
next
  case (Cons b bs)
  show ?case
  proof (cases i)
    case 0
    then show ?thesis by auto
  next
    case (Suc n)
    with Cons.prems have n: "n < length bs" by simp
    show ?thesis
    proof (cases "session_id b = sid \<and> active (b_status b)")
      case True
      show ?thesis
      proof (cases "session_id (bs ! n) = sid \<and> active (b_status (bs ! n))")
        case hit: True
        with Cons.IH [OF n, of "Suc k"] obtain j where "Suc k \<le> j"
          and "cancel_bookings utcnow (Suc k) sid bs ! n
                 = (bs ! n)\<lparr> b_status := CANCELLED, b_updated_at := Some (utcnow j) \<rparr>"
          by auto
        then have "k \<le> j \<and> cancel_bookings utcnow k sid (b # bs) ! i
                 = ((b # bs) ! i)\<lparr> b_status := CANCELLED, b_updated_at := Some (utcnow j) \<rparr>"
          using True Suc by simp
        then show ?thesis using hit Suc by auto
      next
        case miss: False
        with Cons.IH [OF n, of "Suc k"] True Suc show ?thesis by auto
      qed
    next
      case False
      from Cons.IH [OF n, of k] False Suc show ?thesis by auto
    qed
  qed
qed

lemma cancel_bookings_idle:
  "\<forall>b\<in>set bs. \<not> (session_id b = sid \<and> active (b_status b)) \<Longrightarrow>
     cancel_bookings utcnow k sid bs = bs"
  by (induction bs arbitrary: k) auto

lemma cancel_bookings_none_active:
  "b \<in> set (cancel_bookings utcnow k sid bs) \<Longrightarrow> \<not> (session_id b = sid \<and> active (b_status b))"
  by (induction bs arbitrary: k) (auto simp: active_def split: if_splits)

lemmas example_defs = yoga_def morning_def seat_def studio_def studio_full_def seat_request_def
  fixed_clock_def hours_def get_session_def class_obj_def get_session_booking_count_def
  get_booking_def active_def fresh_id_def Let_def

section \<open>Creating a booking: the order of the checks\<close>



section \<open>The acting user 0\<close>

text \<open>
  Claim C10. For \<^verbatim>\<open>cancel_booking\<close> and \<^verbatim>\<open>update_booking\<close> an acting user
  identifier 0 is treated as an absent one: the calls return what the administrative
  calls return, so neither the ownership failure nor, for \<^verbatim>\<open>cancel_booking\<close>, the
  failure of the four-hour cancellation deadline can occur.
\<close>

theorem zero_acting_user_is_admin:
  "cancel_booking d utcnow bid (Some 0) reason = cancel_booking d utcnow bid None reason
   \<and> update_booking d utcnow bid booking_data (Some 0) = update_booking d utcnow bid booking_data None
   \<and> cancel_booking d utcnow bid (Some 0) reason \<noteq> Inl CancelForbidden
   \<and> cancel_booking d utcnow bid (Some 0) reason \<noteq> Inl CancelDeadlinePassed
   \<and> update_booking d utcnow bid booking_data (Some 0) \<noteq> Inl UpdateForbidden"
  by (auto simp: cancel_booking_def update_booking_def not_owner_def Let_def split: option.splits)

theorem zero_acting_user_is_admin_witness:
  "user_id seat \<noteq> 0
   \<and> start_time morning - hours 4 < fixed_clock (hours 99) 0
   \<and> cancel_booking studio_full (fixed_clock (hours 99)) 1 None None
       = Inr (studio\<lparr> bookings := [seat\<lparr> b_status := CANCELLED,
                                          b_updated_at := Some (hours 99) \<rparr>] \<rparr>, True)
   \<and> cancel_booking studio_full (fixed_clock (hours 99)) 1 (Some 0) None
       = Inr (studio\<lparr> bookings := [seat\<lparr> b_status := CANCELLED,
                                          b_updated_at := Some (hours 99) \<rparr>] \<rparr>, True)"
  using zero_acting_user_is_admin [of studio_full "fixed_clock (hours 99)" 1 None]
  by (simp add: example_defs cancel_booking_def not_owner_def)

section \<open>Cancelling a session\<close>

text \<open>
  Claim C5. \<^verbatim>\<open>cancel_session\<close> on a stored session succeeds whatever the clock reads
  (no deadline applies) and cascades: every booking of the session whose status is
  PENDING or CONFIRMED becomes CANCELLED with its update timestamp stamped from the
  clock, and every booking of another session or in a terminal state (COMPLETED,
  NO_SHOW, CANCELLED) stays as it is, in all its fields.
\<close>

theorem cancel_session_cascade:
  "get_session d sid \<noteq> None \<longrightarrow>
     snd (cancel_session d utcnow sid reason) = True
     \<and> length (bookings (fst (cancel_session d utcnow sid reason))) = length (bookings d)
     \<and> (\<forall>i < length (bookings d).
          (session_id (bookings d ! i) = sid \<and> active (b_status (bookings d ! i)) \<longrightarrow>
             (\<exists>k. bookings (fst (cancel_session d utcnow sid reason)) ! i
                    = (bookings d ! i)\<lparr> b_status := CANCELLED,
                                          b_updated_at := Some (utcnow k) \<rparr>))
        \<and> (session_id (bookings d ! i) \<noteq> sid \<or> terminal (b_status (bookings d ! i)) \<longrightarrow>
             bookings (fst (cancel_session d utcnow sid reason)) ! i = bookings d ! i))"
proof (intro impI)
  assume "get_session d sid \<noteq> None"
  then obtain s where s: "get_session d sid = Some s" by auto
  have bs: "bookings (fst (cancel_session d utcnow sid reason))
              = cancel_bookings utcnow 1 sid (bookings d)"
    and ok: "snd (cancel_session d utcnow sid reason) = True"
    using s by (simp_all add: cancel_session_def Let_def)
  have each: "(session_id (bookings d ! i) = sid \<and> active (b_status (bookings d ! i)) \<longrightarrow>
             (\<exists>k. cancel_bookings utcnow 1 sid (bookings d) ! i
                    = (bookings d ! i)\<lparr> b_status := CANCELLED,
                                          b_updated_at := Some (utcnow k) \<rparr>))
        \<and> (session_id (bookings d ! i) \<noteq> sid \<or> terminal (b_status (bookings d ! i)) \<longrightarrow>
             cancel_bookings utcnow 1 sid (bookings d) ! i = bookings d ! i)"
    if "i < length (bookings d)" for i
    using cancel_bookings_nth [OF that, where sid = sid and utcnow = utcnow and k = 1]
    by (auto simp: terminal_iff split: if_splits)
  show "snd (cancel_session d utcnow sid reason) = True
     \<and> length (bookings (fst (cancel_session d utcnow sid reason))) = length (bookings d)
     \<and> (\<forall>i < length (bookings d).
          (session_id (bookings d ! i) = sid \<and> active (b_status (bookings d ! i)) \<longrightarrow>
             (\<exists>k. bookings (fst (cancel_session d utcnow sid reason)) ! i
                    = (bookings d ! i)\<lparr> b_status := CANCELLED,
                                          b_updated_at := Some (utcnow k) \<rparr>))
        \<and> (session_id (bookings d ! i) \<noteq> sid \<or> terminal (b_status (bookings d ! i)) \<longrightarrow>
             bookings (fst (cancel_session d utcnow sid reason)) ! i = bookings d ! i))"
    unfolding bs using ok each by (simp add: length_cancel_bookings)
qed

theorem cancel_session_cascade_witness:
  "get_session studio_full 1 \<noteq> None
   \<and> snd (cancel_session studio_full (fixed_clock (hours 99)) 1 None) = True
   \<and> session_id (bookings studio_full ! 0) = 1 \<and> active (b_status (bookings studio_full ! 0))
   \<and> bookings (fst (cancel_session studio_full (fixed_clock (hours 99)) 1 None))
       = [seat\<lparr> b_status := CANCELLED, b_updated_at := Some (hours 99) \<rparr>]
   \<and> terminal (b_status (bookings history ! 0))
   \<and> bookings (fst (cancel_session history (fixed_clock (hours 99)) 1 None)) = bookings history"
  using cancel_session_cascade [of studio_full 1 "fixed_clock (hours 99)" None]
    cancel_session_cascade [of history 1 "fixed_clock (hours 99)" None]
  by (simp add: example_defs history_def cancel_session_def terminal_def)

text \<open>
  Claim C6, as stated: the notes of the session after a second identical
  \<^verbatim>\<open>cancel_session\<close> call equal its notes after the first call. The source appends
  the cancellation line on every call, so the notes differ.
\<close>

theorem cancel_session_twice_counterexample:
  "map special_notes (sessions (fst (cancel_session studio (fixed_clock (hours 90)) 1 (Some ''rain''))))
     = [Some (CHR 0x0A # ''Cancelled: rain'')]
   \<and> map special_notes (sessions (fst (cancel_session
         (fst (cancel_session studio (fixed_clock (hours 90)) 1 (Some ''rain'')))
         (fixed_clock (hours 90)) 1 (Some ''rain''))))
     = [Some (CHR 0x0A # ''Cancelled: rain'' @ CHR 0x0A # ''Cancelled: rain'')]
   \<and> map special_notes (sessions (fst (cancel_session
         (fst (cancel_session studio (fixed_clock (hours 90)) 1 (Some ''rain'')))
         (fixed_clock (hours 90)) 1 (Some ''rain''))))
     \<noteq> map special_notes (sessions (fst (cancel_session studio (fixed_clock (hours 90)) 1
           (Some ''rain''))))"
  by (simp add: example_defs cancel_session_def cancelled_note_def str_or_def)

text \<open>
  Claim C6, amended. A second \<^verbatim>\<open>cancel_session\<close> call on a session that is already
  cancelled succeeds, leaves the status CANCELLED and the bookings as the first call
  left them, and appends the cancellation line once more: the notes after the second
  call are the notes after the first call followed by a line break, \<open>Cancelled: \<close> and
  the reason (\<open>No reason provided\<close> when there is none).
\<close>

theorem cancel_session_twice_appends:
  "get_session d sid = Some s \<longrightarrow>
     snd (cancel_session (fst (cancel_session d clk1 sid reason)) clk2 sid reason) = True
     \<and> (\<exists>s1 s2. get_session (fst (cancel_session d clk1 sid reason)) sid = Some s1
          \<and> get_session (fst (cancel_session (fst (cancel_session d clk1 sid reason))
                               clk2 sid reason)) sid = Some s2
          \<and> s_status s1 = SESSION_CANCELLED \<and> s_status s2 = SESSION_CANCELLED
          \<and> special_notes s1 = Some (cancelled_note (special_notes s) reason)
          \<and> special_notes s2
              = Some (cancelled_note (special_notes s) reason
                      @ CHR 0x0A # ''Cancelled: '' @ str_or reason ''No reason provided''))
     \<and> bookings (fst (cancel_session (fst (cancel_session d clk1 sid reason)) clk2 sid reason))
         = bookings (fst (cancel_session d clk1 sid reason))"
proof (intro impI)
  assume s: "get_session d sid = Some s"
  define s1 where "s1 = s\<lparr> s_status := SESSION_CANCELLED,
     special_notes := Some (cancelled_note (special_notes s) reason),
     s_updated_at := Some (clk1 0) \<rparr>"
  define d1 where "d1 = fst (cancel_session d clk1 sid reason)"
  have sid: "s_id s = sid"
    using s by (auto simp: get_session_def dest: find_SomeD)
  have d1: "d1 = d\<lparr> sessions := update_first (\<lambda>s. s_id s = sid) (\<lambda>_. s1) (sessions d),
                    bookings := cancel_bookings clk1 1 sid (bookings d) \<rparr>"
    using s by (simp add: d1_def cancel_session_def Let_def s1_def)
  have g1: "get_session d1 sid = Some s1"
    using s sid unfolding get_session_def d1
    by (simp add: find_update_first s1_def)
  define s2 where "s2 = s1\<lparr> s_status := SESSION_CANCELLED,
     special_notes := Some (cancelled_note (special_notes s1) reason),
     s_updated_at := Some (clk2 0) \<rparr>"
  define d2 where "d2 = fst (cancel_session d1 clk2 sid reason)"
  have d2: "d2 = d1\<lparr> sessions := update_first (\<lambda>s. s_id s = sid) (\<lambda>_. s2) (sessions d1),
                    bookings := cancel_bookings clk2 1 sid (bookings d1) \<rparr>"
    using g1 by (simp add: d2_def cancel_session_def Let_def s2_def)
  have g2: "get_session d2 sid = Some s2"
    using g1 sid unfolding get_session_def d2
    by (simp add: find_update_first s2_def s1_def)
  have ok: "snd (cancel_session d1 clk2 sid reason) = True"
    using g1 by (simp add: cancel_session_def Let_def)
  have idle: "bookings d2 = bookings d1"
    unfolding d2 using cancel_bookings_none_active [of _ clk1 1 sid "bookings d"]
    by (simp add: d1 cancel_bookings_idle)
  have n2: "special_notes s2
              = Some (cancelled_note (special_notes s) reason
                      @ CHR 0x0A # ''Cancelled: '' @ str_or reason ''No reason provided'')"
    by (simp add: s2_def s1_def cancelled_note_def str_or_def)
  show "snd (cancel_session (fst (cancel_session d clk1 sid reason)) clk2 sid reason) = True
     \<and> (\<exists>s1 s2. get_session (fst (cancel_session d clk1 sid reason)) sid = Some s1
          \<and> get_session (fst (cancel_session (fst (cancel_session d clk1 sid reason))
                               clk2 sid reason)) sid = Some s2
          \<and> s_status s1 = SESSION_CANCELLED \<and> s_status s2 = SESSION_CANCELLED
          \<and> special_notes s1 = Some (cancelled_note (special_notes s) reason)
          \<and> special_notes s2
              = Some (cancelled_note (special_notes s) reason
                      @ CHR 0x0A # ''Cancelled: '' @ str_or reason ''No reason provided''))
     \<and> bookings (fst (cancel_session (fst (cancel_session d clk1 sid reason)) clk2 sid reason))
         = bookings (fst (cancel_session d clk1 sid reason))"
    using ok g1 g2 idle n2 unfolding d1_def [symmetric] d2_def [symmetric]
    by (simp add: s1_def s2_def)
qed

theorem cancel_session_twice_appends_witness:
  "get_session studio_full 1 = Some morning
   \<and> map special_notes (sessions (fst (cancel_session
         (fst (cancel_session studio_full (fixed_clock (hours 90)) 1 None))
         (fixed_clock (hours 91)) 1 None)))
     = [Some (CHR 0x0A # ''Cancelled: No reason provided''
              @ CHR 0x0A # ''Cancelled: No reason provided'')]
   \<and> bookings (fst (cancel_session
         (fst (cancel_session studio_full (fixed_clock (hours 90)) 1 None))
         (fixed_clock (hours 91)) 1 None))
     = [seat\<lparr> b_status := CANCELLED, b_updated_at := Some (hours 90) \<rparr>]"
  using cancel_session_twice_appends
    [of studio_full 1 morning "fixed_clock (hours 90)" None "fixed_clock (hours 91)"]
  by (simp add: example_defs cancel_session_def cancelled_note_def str_or_def)

section \<open>Cancelling a booking\<close>

text \<open>
  Claim C8, as stated: \<^verbatim>\<open>cancel_booking\<close> fails with Forbidden when an acting user is
  supplied and differs from the owner, and with DeadlinePassed when the current time is
  after the start time minus four hours and an acting user is supplied. With the acting
  user 0 supplied, a booking of user 7 and a clock three hours before the start, the
  source raises neither failure and cancels the booking.
\<close>

theorem cancel_booking_zero_user_counterexample:
  "get_booking studio_full 1 = Some seat
   \<and> user_id seat = 7
   \<and> get_session studio_full (session_id seat) = Some morning
   \<and> start_time morning - hours 4 < fixed_clock (hours 97) 0
   \<and> cancel_booking studio_full (fixed_clock (hours 97)) 1 (Some 0) (Some ''late'')
       = Inr (studio\<lparr> bookings := [seat\<lparr> b_status := CANCELLED,
                b_updated_at := Some (hours 97),
                admin_notes := Some (CHR 0x0A # ''Cancellation reason: late'') \<rparr>] \<rparr>, True)"
  by (simp add: example_defs cancel_booking_def not_owner_def cancellation_note_def str_or_def)

text \<open>
  Claim C8, amended. For a stored booking with a stored session, \<^verbatim>\<open>cancel_booking\<close>
  fails with Forbidden when the acting user is supplied, is not 0 and differs from the
  owner of the booking; otherwise it fails with DeadlinePassed exactly when the current
  time is after the start time minus four hours and an acting user other than 0 is
  supplied; an absent acting user (and the acting user 0) passes both checks. On success
  the status of the booking becomes CANCELLED, its update timestamp is stamped from the
  clock, a reason that is not empty is appended to its admin notes on a line of its own
  after \<open>Cancellation reason: \<close>, and its other fields stay as they were.
\<close>

theorem cancel_booking_guards:
  "get_booking d bid = Some b \<and> get_session d (session_id b) = Some s \<longrightarrow>
     ((\<exists>u. uid = Some u \<and> u \<noteq> 0 \<and> u \<noteq> user_id b)
        \<longrightarrow> cancel_booking d utcnow bid uid reason = Inl CancelForbidden)
     \<and> (\<not> (\<exists>u. uid = Some u \<and> u \<noteq> 0 \<and> u \<noteq> user_id b) \<longrightarrow>
          (cancel_booking d utcnow bid uid reason = Inl CancelDeadlinePassed)
            = (start_time s - hours 4 < utcnow 0 \<and> (\<exists>u. uid = Some u \<and> u \<noteq> 0))
        \<and> (\<not> (start_time s - hours 4 < utcnow 0 \<and> (\<exists>u. uid = Some u \<and> u \<noteq> 0)) \<longrightarrow>
             (\<exists>b'. cancel_booking d utcnow bid uid reason
                     = Inr (d\<lparr>bookings := update_first (\<lambda>x. b_id x = bid) (\<lambda>_. b') (bookings d)\<rparr>,
                            True)
                 \<and> get_booking (d\<lparr>bookings := update_first (\<lambda>x. b_id x = bid) (\<lambda>_. b')
                                    (bookings d)\<rparr>) bid = Some b'
                 \<and> b_status b' = CANCELLED
                 \<and> b_updated_at b' = Some (utcnow 1)
                 \<and> admin_notes b'
                     = (case reason of
                          None \<Rightarrow> admin_notes b
                        | Some r \<Rightarrow>
                            if r = [] then admin_notes b
                            else Some (str_or (admin_notes b) []
                                       @ CHR 0x0A # ''Cancellation reason: '' @ r))
                 \<and> b_id b' = b_id b \<and> user_id b' = user_id b
                 \<and> session_id b' = session_id b \<and> b_notes b' = b_notes b
                 \<and> booking_date b' = booking_date b)))
     \<and> (uid = None \<or> uid = Some 0
          \<longrightarrow> (\<exists>d'. cancel_booking d utcnow bid uid reason = Inr (d', True)))"
proof (intro impI, elim conjE)
  assume b: "get_booking d bid = Some b" and s: "get_session d (session_id b) = Some s"
  have bid: "b_id b = bid"
    using b by (auto simp: get_booking_def dest: find_SomeD)
  have owner: "not_owner uid b = (\<exists>u. uid = Some u \<and> u \<noteq> 0 \<and> u \<noteq> user_id b)"
    by (cases uid) (auto simp: not_owner_def)
  have supplied: "truthy_int uid = (\<exists>u. uid = Some u \<and> u \<noteq> 0)"
    by (cases uid) auto
  have found: "find (\<lambda>x. b_id x = bid) (update_first (\<lambda>x. b_id x = bid) (\<lambda>_. b') (bookings d))
                 = Some b'" if "b_id b' = bid" for b'
    using b that unfolding get_booking_def by (rule find_update_first)
  define b' where "b' = (case reason of
      None \<Rightarrow> b\<lparr> b_status := CANCELLED, b_updated_at := Some (utcnow 1) \<rparr>
    | Some r \<Rightarrow>
        if r = [] then b\<lparr> b_status := CANCELLED, b_updated_at := Some (utcnow 1) \<rparr>
        else b\<lparr> b_status := CANCELLED, b_updated_at := Some (utcnow 1),
                admin_notes := Some (cancellation_note (admin_notes b) r) \<rparr>)"
  have fields: "b_status b' = CANCELLED" "b_updated_at b' = Some (utcnow 1)"
    "b_id b' = b_id b" "user_id b' = user_id b" "session_id b' = session_id b"
    "b_notes b' = b_notes b" "booking_date b' = booking_date b"
    "admin_notes b' = (case reason of
                          None \<Rightarrow> admin_notes b
                        | Some r \<Rightarrow>
                            if r = [] then admin_notes b
                            else Some (str_or (admin_notes b) []
                                       @ CHR 0x0A # ''Cancellation reason: '' @ r))"
    by (simp_all add: b'_def cancellation_note_def split: option.splits)
  have forbidden: "cancel_booking d utcnow bid uid reason = Inl CancelForbidden"
    if "not_owner uid b"
    using b that by (simp add: cancel_booking_def)
  have late: "cancel_booking d utcnow bid uid reason = Inl CancelDeadlinePassed"
    if "\<not> not_owner uid b" "start_time s - hours 4 < utcnow 0" "truthy_int uid"
    using b s that by (simp add: cancel_booking_def)
  have succeeds: "cancel_booking d utcnow bid uid reason
                = Inr (d\<lparr>bookings := update_first (\<lambda>x. b_id x = bid) (\<lambda>_. b') (bookings d)\<rparr>, True)"
    if "\<not> not_owner uid b" "\<not> (start_time s - hours 4 < utcnow 0 \<and> truthy_int uid)"
    using b s that by (auto simp: cancel_booking_def Let_def b'_def split: option.splits)
  have got: "get_booking (d\<lparr>bookings := update_first (\<lambda>x. b_id x = bid) (\<lambda>_. b') (bookings d)\<rparr>)
               bid = Some b'"
    using found [of b'] fields(3) bid by (simp add: get_booking_def)
  have deadline_iff: "(cancel_booking d utcnow bid uid reason = Inl CancelDeadlinePassed)
                        = (start_time s - hours 4 < utcnow 0 \<and> truthy_int uid)"
    if "\<not> not_owner uid b"
  proof (cases "start_time s - hours 4 < utcnow 0 \<and> truthy_int uid")
    case True
    then show ?thesis using late [OF that] by simp
  next
    case False
    then show ?thesis using succeeds [OF that] by simp
  qed
  have admin: "\<not> not_owner uid b \<and> \<not> truthy_int uid" if "uid = None \<or> uid = Some 0"
    using that by (auto simp: not_owner_def)
  show "((\<exists>u. uid = Some u \<and> u \<noteq> 0 \<and> u \<noteq> user_id b)
        \<longrightarrow> cancel_booking d utcnow bid uid reason = Inl CancelForbidden)
     \<and> (\<not> (\<exists>u. uid = Some u \<and> u \<noteq> 0 \<and> u \<noteq> user_id b) \<longrightarrow>
          (cancel_booking d utcnow bid uid reason = Inl CancelDeadlinePassed)
            = (start_time s - hours 4 < utcnow 0 \<and> (\<exists>u. uid = Some u \<and> u \<noteq> 0))
        \<and> (\<not> (start_time s - hours 4 < utcnow 0 \<and> (\<exists>u. uid = Some u \<and> u \<noteq> 0)) \<longrightarrow>
             (\<exists>b'. cancel_booking d utcnow bid uid reason
                     = Inr (d\<lparr>bookings := update_first (\<lambda>x. b_id x = bid) (\<lambda>_. b') (bookings d)\<rparr>,
                            True)
                 \<and> get_booking (d\<lparr>bookings := update_first (\<lambda>x. b_id x = bid) (\<lambda>_. b')
                                    (bookings d)\<rparr>) bid = Some b'
                 \<and> b_status b' = CANCELLED
                 \<and> b_updated_at b' = Some (utcnow 1)
                 \<and> admin_notes b'
                     = (case reason of
                          None \<Rightarrow> admin_notes b
                        | Some r \<Rightarrow>
                            if r = [] then admin_notes b
                            else Some (str_or (admin_notes b) []
                                       @ CHR 0x0A # ''Cancellation reason: '' @ r))
                 \<and> b_id b' = b_id b \<and> user_id b' = user_id b
                 \<and> session_id b' = session_id b \<and> b_notes b' = b_notes b
                 \<and> booking_date b' = booking_date b)))
     \<and> (uid = None \<or> uid = Some 0
          \<longrightarrow> (\<exists>d'. cancel_booking d utcnow bid uid reason = Inr (d', True)))"
    unfolding owner [symmetric] supplied [symmetric]
    using forbidden deadline_iff succeeds got fields admin by auto
qed

theorem cancel_booking_guards_witness:
  "get_booking studio_full 1 = Some seat
   \<and> get_session studio_full (session_id seat) = Some morning
   \<and> cancel_booking studio_full (fixed_clock (hours 95)) 1 (Some 8) (Some ''ill'')
       = Inl CancelForbidden
   \<and> cancel_booking studio_full (fixed_clock (hours 97)) 1 (Some 7) (Some ''ill'')
       = Inl CancelDeadlinePassed
   \<and> cancel_booking studio_full (fixed_clock (hours 97)) 1 None (Some ''ill'')
       = Inr (studio\<lparr> bookings := [seat\<lparr> b_status := CANCELLED,
                b_updated_at := Some (hours 97),
                admin_notes := Some (CHR 0x0A # ''Cancellation reason: ill'') \<rparr>] \<rparr>, True)
   \<and> cancel_booking studio_full (fixed_clock (hours 96)) 1 (Some 7) (Some ''ill'')
       = Inr (studio\<lparr> bookings := [seat\<lparr> b_status := CANCELLED,
                b_updated_at := Some (hours 96),
                admin_notes := Some (CHR 0x0A # ''Cancellation reason: ill'') \<rparr>] \<rparr>, True)"
  using cancel_booking_guards [where d = studio_full and bid = 1 and b = seat and s = morning
          and uid = "Some 8" and utcnow = "fixed_clock (hours 95)" and reason = "Some ''ill''"]
    cancel_booking_guards [where d = studio_full and bid = 1 and b = seat and s = morning
          and uid = "Some 7" and utcnow = "fixed_clock (hours 97)" and reason = "Some ''ill''"]
    cancel_booking_guards [where d = studio_full and bid = 1 and b = seat and s = morning
          and uid = None and utcnow = "fixed_clock (hours 97)" and reason = "Some ''ill''"]
    cancel_booking_guards [where d = studio_full and bid = 1 and b = seat and s = morning
          and uid = "Some 7" and utcnow = "fixed_clock (hours 96)" and reason = "Some ''ill''"]
  by (simp add: example_defs cancel_booking_def not_owner_def cancellation_note_def str_or_def)

section \<open>Terminal states of a booking\<close>

lemma bookings_committed_create_session:
  "bookings (committed d (create_session d session_data creator)) = bookings d"
  by (simp add: committed_def create_session_def Let_def split: option.splits)

lemma bookings_committed_update_session:
  "bookings (committed d (update_session d clk sid session_data)) = bookings d"
  by (simp add: committed_def update_session_def Let_def split: option.splits)

lemma bookings_mark_session_completed:
  "bookings (fst (mark_session_completed d clk sid)) = bookings d"
  by (simp add: mark_session_completed_def split: option.splits)

lemma bookings_cancel_session:
  "bookings (fst (cancel_session d clk sid reason))
     = (if get_session d sid = None then bookings d
        else cancel_bookings clk 1 sid (bookings d))"
  by (simp add: cancel_session_def Let_def split: option.splits)

lemma bookings_committed_create_booking:
  "bookings (committed d (create_booking d clk booking_data uid)) = bookings d
   \<or> (\<exists>b. bookings (committed d (create_booking d clk booking_data uid)) = bookings d @ [b])"
  by (simp add: committed_def create_booking_def Let_def split: option.splits)

lemma bookings_committed_update_booking:
  "bookings (committed d (update_booking d clk bid booking_data uid)) = bookings d
   \<or> (\<exists>b. get_booking d bid = Some b
        \<and> bookings (committed d (update_booking d clk bid booking_data uid))
            = update_first (\<lambda>x. b_id x = bid)
                (\<lambda>_. b\<lparr> b_status := apply_upd (bu_status booking_data) (b_status b),
                         b_notes := apply_upd (bu_notes booking_data) (b_notes b),
                         admin_notes := apply_upd (bu_admin_notes booking_data) (admin_notes b),
                         b_updated_at := Some (clk 0) \<rparr>)
                (bookings d))"
  by (simp add: committed_def update_booking_def Let_def split: option.splits)

lemma bookings_committed_confirm_booking:
  "bookings (committed d (confirm_booking d clk bid)) = bookings d
   \<or> (\<exists>b. get_booking d bid = Some b \<and> b_status b = PENDING
        \<and> bookings (committed d (confirm_booking d clk bid))
            = update_first (\<lambda>x. b_id x = bid)
                (\<lambda>_. b\<lparr> b_status := CONFIRMED, b_updated_at := Some (clk 0) \<rparr>)
                (bookings d))"
  by (simp add: committed_def confirm_booking_def Let_def split: option.splits)

text \<open>
  Claim C7, as stated: \<^verbatim>\<open>cancel_booking\<close>, \<^verbatim>\<open>mark_attendance\<close> and
  \<^verbatim>\<open>update_booking\<close> leave the status of a terminal booking unchanged. None of the
  three reads the current status: on a COMPLETED booking the first sets CANCELLED, the
  second NO_SHOW and the third the status of its patch.
\<close>

theorem terminal_status_overwritten_counterexample:
  "terminal (b_status (bookings history ! 0))
   \<and> cancel_booking history (fixed_clock (hours 200)) 1 None None
       = Inr (history\<lparr> bookings := [seat\<lparr> b_status := CANCELLED,
                                          b_updated_at := Some (hours 200) \<rparr>] \<rparr>, True)
   \<and> mark_attendance history (fixed_clock (hours 200)) 1 False
       = Inr (history\<lparr> bookings := [seat\<lparr> b_status := NO_SHOW,
                                          b_updated_at := Some (hours 200) \<rparr>] \<rparr>, True)
   \<and> update_booking history (fixed_clock (hours 200)) 1
         \<lparr> bu_status = SetTo PENDING, bu_notes = Unset, bu_admin_notes = Unset \<rparr> None
       = Inr (history\<lparr> bookings := [seat\<lparr> b_status := PENDING,
                                          b_updated_at := Some (hours 200) \<rparr>] \<rparr>,
              Some (seat\<lparr> b_status := PENDING, b_updated_at := Some (hours 200) \<rparr>))"
  by (simp add: example_defs history_def terminal_def cancel_booking_def mark_attendance_def
        update_booking_def not_owner_def)

text \<open>
  Claim C7, amended. Once a booking is in a terminal state (CANCELLED, COMPLETED or
  NO_SHOW), its status is left unchanged by \<^verbatim>\<open>create_session\<close>,
  \<^verbatim>\<open>update_session\<close>, \<^verbatim>\<open>cancel_session\<close>, \<^verbatim>\<open>mark_session_completed\<close>,
  \<^verbatim>\<open>create_booking\<close>, \<^verbatim>\<open>confirm_booking\<close>, and by an \<^verbatim>\<open>update_booking\<close>
  whose patch carries no status (an edit of the notes). The booking is the row at
  position \<open>i\<close> of the table.
\<close>

theorem terminal_status_kept:
  "keeps_status c \<and> i < length (bookings d) \<and> terminal (b_status (bookings d ! i)) \<longrightarrow>
     i < length (bookings (exec d clk c))
     \<and> b_status (bookings (exec d clk c) ! i) = b_status (bookings d ! i)"
proof (intro impI, elim conjE)
  assume k: "keeps_status c" and i: "i < length (bookings d)"
    and t: "terminal (b_status (bookings d ! i))"
  show "i < length (bookings (exec d clk c))
     \<and> b_status (bookings (exec d clk c) ! i) = b_status (bookings d ! i)"
  proof (cases c)
    case (CreateSession session_data creator)
    then show ?thesis using i by (simp add: bookings_committed_create_session)
  next
    case (UpdateSession sid session_data)
    then show ?thesis using i by (simp add: bookings_committed_update_session)
  next
    case (CancelSession sid reason)
    then show ?thesis
      using i t cancel_bookings_nth [OF i, where sid = sid and utcnow = clk and k = 1]
      by (auto simp: bookings_cancel_session length_cancel_bookings terminal_iff
               split: if_splits)
  next
    case (MarkSessionCompleted sid)
    then show ?thesis using i by (simp add: bookings_mark_session_completed)
  next
    case (CreateBooking booking_data uid)
    then show ?thesis
      using i bookings_committed_create_booking [of d clk booking_data uid]
      by (auto simp: nth_append)
  next
    case (UpdateBooking bid booking_data uid)
    with k have unset: "bu_status booking_data = Unset" by simp
    from bookings_committed_update_booking [of d clk bid booking_data uid]
    show ?thesis
    proof (elim disjE exE conjE)
      assume "bookings (committed d (update_booking d clk bid booking_data uid)) = bookings d"
      then show ?thesis using i UpdateBooking by simp
    next
      fix b
      assume b: "get_booking d bid = Some b"
        and eq: "bookings (committed d (update_booking d clk bid booking_data uid))
            = update_first (\<lambda>x. b_id x = bid)
                (\<lambda>_. b\<lparr> b_status := apply_upd (bu_status booking_data) (b_status b),
                         b_notes := apply_upd (bu_notes booking_data) (b_notes b),
                         admin_notes := apply_upd (bu_admin_notes booking_data) (admin_notes b),
                         b_updated_at := Some (clk 0) \<rparr>)
                (bookings d)"
      from update_first_nth [OF b [unfolded get_booking_def] i,
          of "b\<lparr> b_status := apply_upd (bu_status booking_data) (b_status b),
                  b_notes := apply_upd (bu_notes booking_data) (b_notes b),
                  admin_notes := apply_upd (bu_admin_notes booking_data) (admin_notes b),
                  b_updated_at := Some (clk 0) \<rparr>"]
      show ?thesis using i unset
        by (auto simp: UpdateBooking eq length_update_first)
    qed
  next
    case (CancelBooking bid uid reason)
    with k show ?thesis by simp
  next
    case (ConfirmBooking bid)
    from bookings_committed_confirm_booking [of d clk bid]
    show ?thesis
    proof (elim disjE exE conjE)
      assume "bookings (committed d (confirm_booking d clk bid)) = bookings d"
      then show ?thesis using i ConfirmBooking by simp
    next
      fix b
      assume b: "get_booking d bid = Some b" and p: "b_status b = PENDING"
        and eq: "bookings (committed d (confirm_booking d clk bid))
            = update_first (\<lambda>x. b_id x = bid)
                (\<lambda>_. b\<lparr> b_status := CONFIRMED, b_updated_at := Some (clk 0) \<rparr>)
                (bookings d)"
      from update_first_nth [OF b [unfolded get_booking_def] i,
          of "b\<lparr> b_status := CONFIRMED, b_updated_at := Some (clk 0) \<rparr>"]
      show ?thesis using i t p
        by (auto simp: ConfirmBooking eq length_update_first terminal_def)
    qed
  next
    case (MarkAttendance bid attended)
    with k show ?thesis by simp
  qed
qed

theorem terminal_status_kept_witness:
  "keeps_status (ConfirmBooking 1)
   \<and> keeps_status (UpdateBooking 1 \<lparr> bu_status = Unset, bu_notes = Unset,
                       bu_admin_notes = SetTo (Some ''checked'') \<rparr> None)
   \<and> (0::nat) < length (bookings history)
   \<and> terminal (b_status (bookings history ! 0))
   \<and> confirm_booking history (fixed_clock (hours 200)) 1 = Inl InvalidTransition
   \<and> b_status (bookings (exec history (fixed_clock (hours 200)) (ConfirmBooking 1)) ! 0)
       = COMPLETED
   \<and> bookings (exec history (fixed_clock (hours 200))
        (UpdateBooking 1 \<lparr> bu_status = Unset, bu_notes = Unset,
                           bu_admin_notes = SetTo (Some ''checked'') \<rparr> None))
       = [seat\<lparr> b_status := COMPLETED, admin_notes := Some ''checked'',
                 b_updated_at := Some (hours 200) \<rparr>]"
  using terminal_status_kept [of "ConfirmBooking 1" 0 history "fixed_clock (hours 200)"]
    terminal_status_kept [of "UpdateBooking 1 \<lparr> bu_status = Unset, bu_notes = Unset,
                           bu_admin_notes = SetTo (Some ''checked'') \<rparr> None" 0 history
                          "fixed_clock (hours 200)"]
  by (simp add: example_defs history_def terminal_def confirm_booking_def update_booking_def
        not_owner_def committed_def)

section \<open>Scheduling conflicts\<close>

lemma time_clash_half_open:
  "start_time s < end_time s \<Longrightarrow> start < end \<Longrightarrow>
     time_clash s start end = (start_time s < end \<and> start < end_time s)"
  by (auto simp: time_clash_def)

lemma conflicts_nonempty:
  "(check_scheduling_conflicts d start end loc excl \<noteq> [])
     = (\<exists>s\<in>set (sessions d).
          (s_status s = SCHEDULED \<or> s_status s = ONGOING)
          \<and> time_clash s start end
          \<and> (\<forall>l. loc = Some l \<and> l \<noteq> [] \<longrightarrow> location s = Some l)
          \<and> (\<forall>x. excl = Some x \<and> x \<noteq> 0 \<longrightarrow> s_id s \<noteq> x))"
proof -
  have excl: "(if truthy_int excl then Some (s_id s) \<noteq> excl else True)
                = (\<forall>x. excl = Some x \<and> x \<noteq> 0 \<longrightarrow> s_id s \<noteq> x)" for s
    by (cases excl) auto
  have loc: "(if truthy_str loc then location s = loc else True)
                = (\<forall>l. loc = Some l \<and> l \<noteq> [] \<longrightarrow> location s = Some l)" for s
    by (cases loc) auto
  show ?thesis
    unfolding check_scheduling_conflicts_def excl loc
    by (simp add: filter_empty_conv) blast
qed

text \<open>
  Claim C3, as stated: the location of a stored session is compared with the requested
  one only when both sessions specify a location. The source adds the location filter
  whenever the request specifies a location, and none otherwise: a request for room A
  over a scheduled session without a location at the same time is accepted, while a
  request without a location over the session in room A is refused.
\<close>

theorem create_session_location_counterexample:
  "map s_status (sessions park) = [SCHEDULED]
   \<and> map location (sessions park) = [None]
   \<and> map start_time (sessions park) = [sc_start_time (morning_request (Some ''Room A''))]
   \<and> map end_time (sessions park) = [sc_end_time (morning_request (Some ''Room A''))]
   \<and> sc_start_time (morning_request (Some ''Room A''))
       < sc_end_time (morning_request (Some ''Room A''))
   \<and> create_session park (morning_request (Some ''Room A'')) 1
       = Inr (park\<lparr> sessions := sessions park @ [morning\<lparr> s_id := 2 \<rparr>] \<rparr>,
              morning\<lparr> s_id := 2 \<rparr>)
   \<and> map location (sessions studio) = [Some ''Room A'']
   \<and> create_session studio (morning_request None) 1 = Inl SchedulingConflict"
  by (simp add: example_defs park_def morning_request_def create_session_def
        check_scheduling_conflicts_def time_clash_def)

text \<open>
  Claim C3, amended. For an existing class, \<^verbatim>\<open>create_session\<close> fails with
  SchedulingConflict exactly when some stored session with status SCHEDULED or ONGOING
  clashes in time with the requested range and, when the request specifies a location
  that is not empty, has that same location; a request without a location conflicts with
  every such session that clashes in time. The time test is the three-clause filter of
  the source, which is the half-open rule (\<open>s1 < e2\<close> and \<open>s2 < e1\<close>) whenever both
  ranges end after they start. Otherwise a new session with status SCHEDULED and the
  requested fields is appended to the store and returned.
\<close>

theorem create_session_conflict:
  "find (\<lambda>c. c_id c = sc_class_id session_data) (classes d) \<noteq> None \<longrightarrow>
     ((create_session d session_data creator = Inl SchedulingConflict)
        = (\<exists>s\<in>set (sessions d).
             (s_status s = SCHEDULED \<or> s_status s = ONGOING)
             \<and> time_clash s (sc_start_time session_data) (sc_end_time session_data)
             \<and> (\<forall>l. sc_location session_data = Some l \<and> l \<noteq> [] \<longrightarrow> location s = Some l)))
     \<and> (\<forall>s. start_time s < end_time s \<and> sc_start_time session_data < sc_end_time session_data \<longrightarrow>
           time_clash s (sc_start_time session_data) (sc_end_time session_data)
             = (start_time s < sc_end_time session_data \<and> sc_start_time session_data < end_time s))
     \<and> (create_session d session_data creator \<noteq> Inl SchedulingConflict \<longrightarrow>
          (\<exists>new. create_session d session_data creator
                    = Inr (d\<lparr>sessions := sessions d @ [new]\<rparr>, new)
                \<and> s_status new = SCHEDULED
                \<and> class_id new = sc_class_id session_data
                \<and> start_time new = sc_start_time session_data
                \<and> end_time new = sc_end_time session_data
                \<and> location new = sc_location session_data
                \<and> special_notes new = sc_special_notes session_data
                \<and> created_by new = creator))"
  by (auto simp: create_session_def Let_def conflicts_nonempty time_clash_half_open)

theorem create_session_conflict_witness:
  "find (\<lambda>c. c_id c = sc_class_id (morning_request (Some ''Room A''))) (classes studio) \<noteq> None
   \<and> create_session studio (morning_request (Some ''Room A'')) 1 = Inl SchedulingConflict
   \<and> create_session studio (morning_request (Some ''Room B'')) 1
       = Inr (studio\<lparr> sessions := [morning, morning\<lparr> s_id := 2, location := Some ''Room B'' \<rparr>] \<rparr>,
              morning\<lparr> s_id := 2, location := Some ''Room B'' \<rparr>)"
  using create_session_conflict [of "morning_request (Some ''Room A'')" studio 1]
    create_session_conflict [of "morning_request (Some ''Room B'')" studio 1]
  by (simp add: example_defs morning_request_def create_session_def
        check_scheduling_conflicts_def time_clash_def)

section \<open>Updating a session\<close>

lemma merged_time_apply: "merged_time u old = apply_upd u old"
  by (cases u) (simp_all add: merged_time_def)

lemma attr_req_None: "(attr_req u = None) = (u = Unset)"
  by (cases u) simp_all

text \<open>
  Claim C4, as stated: a patch that changes the location re-runs the conflict check. The
  source runs the check only when the patch carries a start or an end time: moving the
  session of room B into room A, where a session is scheduled at the same time, is
  accepted, although the check on the merged values finds that session.
\<close>

theorem update_session_location_only_counterexample:
  "check_scheduling_conflicts two_rooms (hours 100) (hours 101) (Some ''Room A'') (Some 2)
     = [morning]
   \<and> update_session two_rooms (fixed_clock (hours 90)) 2
         \<lparr> su_start_time = Unset, su_end_time = Unset, su_location = SetTo (Some ''Room A''),
           su_special_notes = Unset, su_status = Unset \<rparr>
       = Inr (two_rooms\<lparr> sessions := [morning,
                 morning\<lparr> s_id := 2, s_updated_at := Some (hours 90) \<rparr>] \<rparr>,
              Some (morning\<lparr> s_id := 2, s_updated_at := Some (hours 90) \<rparr>))"
  by (simp add: example_defs two_rooms_def update_session_def check_scheduling_conflicts_def
        time_clash_def or_str_def)

text \<open>
  Claim C4, amended. For a stored session, an \<^verbatim>\<open>update_session\<close> call whose patch
  carries a start time or an end time re-runs the conflict check of
  \<^verbatim>\<open>create_session\<close> on the patched times (the stored ones for a time the patch
  leaves unset) and on the patched location (the stored one when the patch gives none or
  an empty one), against the stored sessions other than the session itself (for a
  session identifier other than 0), and fails with SchedulingConflict exactly when the
  check finds a session; a patch without a start and an end time runs no check. A call
  that does not fail applies the fields of the patch that are set, keeps the others, and
  stamps the update timestamp from the clock.
\<close>

theorem update_session_conflict_check:
  "get_session d sid = Some s \<longrightarrow>
     (su_start_time p = Unset \<and> su_end_time p = Unset
        \<longrightarrow> update_session d utcnow sid p \<noteq> Inl UpdateSchedulingConflict)
     \<and> (su_start_time p \<noteq> Unset \<or> su_end_time p \<noteq> Unset \<longrightarrow>
          (update_session d utcnow sid p = Inl UpdateSchedulingConflict)
            = (\<exists>s'\<in>set (sessions d).
                 (s_status s' = SCHEDULED \<or> s_status s' = ONGOING)
                 \<and> time_clash s' (apply_upd (su_start_time p) (start_time s))
                                  (apply_upd (su_end_time p) (end_time s))
                 \<and> (\<forall>l. or_str (attr_opt (su_location p)) (location s) = Some l \<and> l \<noteq> []
                        \<longrightarrow> location s' = Some l)
                 \<and> (sid \<noteq> 0 \<longrightarrow> s_id s' \<noteq> sid)))
     \<and> (update_session d utcnow sid p \<noteq> Inl UpdateSchedulingConflict \<longrightarrow>
          (\<exists>s'. update_session d utcnow sid p
                   = Inr (d\<lparr>sessions := update_first (\<lambda>x. s_id x = sid) (\<lambda>_. s') (sessions d)\<rparr>,
                          Some s')
               \<and> get_session (d\<lparr>sessions := update_first (\<lambda>x. s_id x = sid) (\<lambda>_. s')
                                  (sessions d)\<rparr>) sid = Some s'
               \<and> start_time s' = apply_upd (su_start_time p) (start_time s)
               \<and> end_time s' = apply_upd (su_end_time p) (end_time s)
               \<and> location s' = apply_upd (su_location p) (location s)
               \<and> special_notes s' = apply_upd (su_special_notes p) (special_notes s)
               \<and> s_status s' = apply_upd (su_status p) (s_status s)
               \<and> s_updated_at s' = Some (utcnow 0)
               \<and> s_id s' = s_id s \<and> class_id s' = class_id s \<and> created_by s' = created_by s))"
proof (intro impI)
  assume s: "get_session d sid = Some s"
  have sid: "s_id s = sid"
    using s by (auto simp: get_session_def dest: find_SomeD)
  define s' where "s' = s\<lparr>
      start_time := apply_upd (su_start_time p) (start_time s),
      end_time := apply_upd (su_end_time p) (end_time s),
      location := apply_upd (su_location p) (location s),
      special_notes := apply_upd (su_special_notes p) (special_notes s),
      s_status := apply_upd (su_status p) (s_status s),
      s_updated_at := Some (utcnow 0) \<rparr>"
  let ?checked = "su_start_time p \<noteq> Unset \<or> su_end_time p \<noteq> Unset"
  let ?clash = "\<exists>s'\<in>set (sessions d).
                 (s_status s' = SCHEDULED \<or> s_status s' = ONGOING)
                 \<and> time_clash s' (apply_upd (su_start_time p) (start_time s))
                                  (apply_upd (su_end_time p) (end_time s))
                 \<and> (\<forall>l. or_str (attr_opt (su_location p)) (location s) = Some l \<and> l \<noteq> []
                        \<longrightarrow> location s' = Some l)
                 \<and> (sid \<noteq> 0 \<longrightarrow> s_id s' \<noteq> sid)"
  have clash: "(check_scheduling_conflicts d
                  (merged_time (su_start_time p) (start_time s))
                  (merged_time (su_end_time p) (end_time s))
                  (or_str (attr_opt (su_location p)) (location s)) (Some sid) \<noteq> []) = ?clash"
    unfolding conflicts_nonempty merged_time_apply by simp
  have fails: "update_session d utcnow sid p = Inl UpdateSchedulingConflict"
    if "?checked" "?clash"
    using s that clash by (simp add: update_session_def attr_req_None)
  have succeeds: "update_session d utcnow sid p
                   = Inr (d\<lparr>sessions := update_first (\<lambda>x. s_id x = sid) (\<lambda>_. s') (sessions d)\<rparr>,
                          Some s')"
    if "\<not> (?checked \<and> ?clash)"
    using s that clash by (auto simp: update_session_def attr_req_None Let_def s'_def)
  have got: "get_session (d\<lparr>sessions := update_first (\<lambda>x. s_id x = sid) (\<lambda>_. s')
                                  (sessions d)\<rparr>) sid = Some s'"
    using s sid unfolding get_session_def by (simp add: find_update_first s'_def)
  have iff: "(update_session d utcnow sid p = Inl UpdateSchedulingConflict) = (?checked \<and> ?clash)"
  proof (cases "?checked \<and> ?clash")
    case True
    then show ?thesis using fails by simp
  next
    case False
    then show ?thesis using succeeds by simp
  qed
  have fields: "start_time s' = apply_upd (su_start_time p) (start_time s)"
    "end_time s' = apply_upd (su_end_time p) (end_time s)"
    "location s' = apply_upd (su_location p) (location s)"
    "special_notes s' = apply_upd (su_special_notes p) (special_notes s)"
    "s_status s' = apply_upd (su_status p) (s_status s)"
    "s_updated_at s' = Some (utcnow 0)"
    "s_id s' = s_id s" "class_id s' = class_id s" "created_by s' = created_by s"
    by (simp_all add: s'_def)
  show "(su_start_time p = Unset \<and> su_end_time p = Unset
        \<longrightarrow> update_session d utcnow sid p \<noteq> Inl UpdateSchedulingConflict)
     \<and> (su_start_time p \<noteq> Unset \<or> su_end_time p \<noteq> Unset \<longrightarrow>
          (update_session d utcnow sid p = Inl UpdateSchedulingConflict)
            = (\<exists>s'\<in>set (sessions d).
                 (s_status s' = SCHEDULED \<or> s_status s' = ONGOING)
                 \<and> time_clash s' (apply_upd (su_start_time p) (start_time s))
                                  (apply_upd (su_end_time p) (end_time s))
                 \<and> (\<forall>l. or_str (attr_opt (su_location p)) (location s) = Some l \<and> l \<noteq> []
                        \<longrightarrow> location s' = Some l)
                 \<and> (sid \<noteq> 0 \<longrightarrow> s_id s' \<noteq> sid)))
     \<and> (update_session d utcnow sid p \<noteq> Inl UpdateSchedulingConflict \<longrightarrow>
          (\<exists>s'. update_session d utcnow sid p
                   = Inr (d\<lparr>sessions := update_first (\<lambda>x. s_id x = sid) (\<lambda>_. s') (sessions d)\<rparr>,
                          Some s')
               \<and> get_session (d\<lparr>sessions := update_first (\<lambda>x. s_id x = sid) (\<lambda>_. s')
                                  (sessions d)\<rparr>) sid = Some s'
               \<and> start_time s' = apply_upd (su_start_time p) (start_time s)
               \<and> end_time s' = apply_upd (su_end_time p) (end_time s)
               \<and> location s' = apply_upd (su_location p) (location s)
               \<and> special_notes s' = apply_upd (su_special_notes p) (special_notes s)
               \<and> s_status s' = apply_upd (su_status p) (s_status s)
               \<and> s_updated_at s' = Some (utcnow 0)
               \<and> s_id s' = s_id s \<and> class_id s' = class_id s \<and> created_by s' = created_by s))"
  proof (intro conjI impI)
    assume "su_start_time p = Unset \<and> su_end_time p = Unset"
    then show "update_session d utcnow sid p \<noteq> Inl UpdateSchedulingConflict"
      using iff by simp
  next
    assume "?checked"
    then show "(update_session d utcnow sid p = Inl UpdateSchedulingConflict) = ?clash"
      using iff by simp
  next
    assume "update_session d utcnow sid p \<noteq> Inl UpdateSchedulingConflict"
    then have "\<not> (?checked \<and> ?clash)" using iff by simp
    from succeeds [OF this] got fields
    show "\<exists>s'. update_session d utcnow sid p
                   = Inr (d\<lparr>sessions := update_first (\<lambda>x. s_id x = sid) (\<lambda>_. s') (sessions d)\<rparr>,
                          Some s')
               \<and> get_session (d\<lparr>sessions := update_first (\<lambda>x. s_id x = sid) (\<lambda>_. s')
                                  (sessions d)\<rparr>) sid = Some s'
               \<and> start_time s' = apply_upd (su_start_time p) (start_time s)
               \<and> end_time s' = apply_upd (su_end_time p) (end_time s)
               \<and> location s' = apply_upd (su_location p) (location s)
               \<and> special_notes s' = apply_upd (su_special_notes p) (special_notes s)
               \<and> s_status s' = apply_upd (su_status p) (s_status s)
               \<and> s_updated_at s' = Some (utcnow 0)
               \<and> s_id s' = s_id s \<and> class_id s' = class_id s \<and> created_by s' = created_by s"
      by blast
  qed
qed

theorem update_session_conflict_check_witness:
  "get_session two_rooms 2 = Some (morning\<lparr> s_id := 2, location := Some ''Room B'' \<rparr>)
   \<and> update_session two_rooms (fixed_clock (hours 90)) 2
         \<lparr> su_start_time = SetTo (hours 100), su_end_time = Unset,
           su_location = SetTo (Some ''Room A''), su_special_notes = Unset, su_status = Unset \<rparr>
       = Inl UpdateSchedulingConflict
   \<and> update_session two_rooms (fixed_clock (hours 90)) 2
         \<lparr> su_start_time = SetTo (hours 101), su_end_time = SetTo (hours 102),
           su_location = SetTo (Some ''Room A''), su_special_notes = Unset, su_status = Unset \<rparr>
       = Inr (two_rooms\<lparr> sessions := [morning,
                 morning\<lparr> s_id := 2, start_time := hours 101, end_time := hours 102,
                          s_updated_at := Some (hours 90) \<rparr>] \<rparr>,
              Some (morning\<lparr> s_id := 2, start_time := hours 101, end_time := hours 102,
                             s_updated_at := Some (hours 90) \<rparr>))"
  using update_session_conflict_check [where d = two_rooms and sid = 2
      and s = "morning\<lparr> s_id := 2, location := Some ''Room B'' \<rparr>"
      and utcnow = "fixed_clock (hours 90)"
      and p = "\<lparr> su_start_time = SetTo (hours 100), su_end_time = Unset,
           su_location = SetTo (Some ''Room A''), su_special_notes = Unset, su_status = Unset \<rparr>"]
    update_session_conflict_check [where d = two_rooms and sid = 2
      and s = "morning\<lparr> s_id := 2, location := Some ''Room B'' \<rparr>"
      and utcnow = "fixed_clock (hours 90)"
      and p = "\<lparr> su_start_time = SetTo (hours 101), su_end_time = SetTo (hours 102),
           su_location = SetTo (Some ''Room A''), su_special_notes = Unset, su_status = Unset \<rparr>"]
  by (simp add: example_defs two_rooms_def update_session_def check_scheduling_conflicts_def
        time_clash_def or_str_def merged_time_def)

section \<open>Booking statistics: the rates\<close>

text \<open>
  The rounding of \<open>nearest_float\<close> is within half a unit of the last mantissa bit, and
  its exponent is bounded by the size of the quotient; a rate is therefore within
  \<open>2 ^ -45\<close> of the exact percentage.
\<close>

lemma floorlog2_numeral:
  "floorlog 2 (numeral Num.One) = 1"
  "floorlog 2 (numeral (Num.Bit0 n)) = floorlog 2 (numeral n) + 1"
  "floorlog 2 (numeral (Num.Bit1 n)) = floorlog 2 (numeral n) + 1"
proof -
  show "floorlog 2 (numeral Num.One) = 1"
    by (subst compute_floorlog) (simp add: floorlog_def)
  have "numeral (Num.Bit0 n) div (2::nat) = numeral n"
    by (simp add: numeral_Bit0_div_2)
  then show "floorlog 2 (numeral (Num.Bit0 n)) = floorlog 2 (numeral n) + 1"
    by (subst compute_floorlog) simp
  have "numeral (Num.Bit1 n) div (2::nat) = numeral n"
    by (simp add: numeral_Bit1_div_2)
  then show "floorlog 2 (numeral (Num.Bit1 n)) = floorlog 2 (numeral n) + 1"
    by (subst compute_floorlog) simp
qed

lemma floorlog2_one: "floorlog 2 (Suc 0) = 1"
  using floorlog2_numeral(1) by simp

lemmas float_defs = truediv_def nearest_float_def floor_log2_def round_half_even_def
  float_of_nat_def fmul_def float_value_def floorlog2_numeral floorlog2_one Let_def

lemma float_value_powi: "float_value (m, e) = real m * 2 powi e"
  by (auto simp: float_value_def power_int_def field_simps)

lemma round_half_even_error:
  assumes d: "0 < d"
  shows "\<bar>real (round_half_even n d) - real n / real d\<bar> \<le> 1 / 2"
proof -
  define q where "q = n div d"
  define r where "r = n mod d"
  have n: "real n = real q * real d + real r"
    unfolding q_def r_def by (metis div_mult_mod_eq of_nat_add of_nat_mult)
  have r: "r < d" unfolding r_def using d by simp
  have quot: "real n / real d = real q + real r / real d"
    using d by (simp add: n field_simps)
  consider "2 * r < d" | "d < 2 * r" | "2 * r = d" by linarith
  then show ?thesis
  proof cases
    case 1
    then have "round_half_even n d = q"
      by (simp add: round_half_even_def q_def r_def Let_def)
    moreover have "real r / real d \<le> 1 / 2"
      using 1 d by (simp add: field_simps)
    ultimately show ?thesis using quot by simp
  next
    case 2
    then have "round_half_even n d = q + 1"
      by (simp add: round_half_even_def q_def r_def Let_def)
    moreover have "1 / 2 \<le> real r / real d" "real r / real d \<le> 1"
      using 2 r d by (simp_all add: field_simps)
    ultimately show ?thesis using quot by simp
  next
    case 3
    then have "round_half_even n d = q \<or> round_half_even n d = q + 1"
      by (simp add: round_half_even_def q_def r_def Let_def)
    moreover have "real r / real d = 1 / 2"
      using 3 d by (simp add: field_simps)
    ultimately show ?thesis using quot by auto
  qed
qed

lemma nearest_float_error:
  assumes p: "0 < p" and q: "0 < q"
  shows "\<bar>float_value (nearest_float p q) - real p / real q\<bar>
           \<le> 2 powi (max (floor_log2 p q - 52) (- 1074)) / 2"
proof -
  define e where "e = max (floor_log2 p q - 52) (- 1074)"
  show ?thesis
  proof (cases "0 \<le> e")
    case True
    define m where "m = round_half_even p (q * 2 ^ nat e)"
    have nf: "nearest_float p q = (m, e)"
      using p True by (simp add: nearest_float_def Let_def e_def m_def)
    have pw: "(2::real) powi e = 2 ^ nat e"
      using True by (simp add: power_int_def)
    have "\<bar>real m - real p / real (q * 2 ^ nat e)\<bar> \<le> 1 / 2"
      unfolding m_def using q by (intro round_half_even_error) simp
    then have "\<bar>real m - real p / real (q * 2 ^ nat e)\<bar> * 2 ^ nat e \<le> 1 / 2 * 2 ^ nat e"
      by (intro mult_right_mono) simp_all
    also have "1 / 2 * 2 ^ nat e = (2::real) ^ nat e / 2" by simp
    finally have le: "\<bar>real m - real p / real (q * 2 ^ nat e)\<bar> * 2 ^ nat e \<le> 2 ^ nat e / 2" .
    have "real m * 2 ^ nat e - real p / real q
            = (real m - real p / real (q * 2 ^ nat e)) * 2 ^ nat e"
      using q by (simp add: field_simps)
    then have eq: "\<bar>real m * 2 ^ nat e - real p / real q\<bar>
                     = \<bar>real m - real p / real (q * 2 ^ nat e)\<bar> * 2 ^ nat e"
      by (simp add: abs_mult)
    show ?thesis
      unfolding nf float_value_powi e_def [symmetric] pw eq by (rule le)
  next
    case False
    define m where "m = round_half_even (p * 2 ^ nat (- e)) q"
    have nf: "nearest_float p q = (m, e)"
      using p False by (simp add: nearest_float_def Let_def e_def m_def)
    have pw: "(2::real) powi e = 1 / 2 ^ nat (- e)"
      using False by (simp add: power_int_def field_simps)
    have "\<bar>real m - real (p * 2 ^ nat (- e)) / real q\<bar> \<le> 1 / 2"
      unfolding m_def using q by (intro round_half_even_error)
    then have "\<bar>real m - real (p * 2 ^ nat (- e)) / real q\<bar> / 2 ^ nat (- e)
                 \<le> 1 / 2 / 2 ^ nat (- e)"
      by (intro divide_right_mono) simp_all
    also have "1 / 2 / 2 ^ nat (- e) = 1 / (2::real) ^ nat (- e) / 2" by simp
    finally have le: "\<bar>real m - real (p * 2 ^ nat (- e)) / real q\<bar> / 2 ^ nat (- e)
                        \<le> 1 / 2 ^ nat (- e) / 2" .
    have "real m * (1 / 2 ^ nat (- e)) - real p / real q
            = (real m - real (p * 2 ^ nat (- e)) / real q) / 2 ^ nat (- e)"
      using q by (simp add: field_simps)
    then have eq: "\<bar>real m * (1 / 2 ^ nat (- e)) - real p / real q\<bar>
                     = \<bar>real m - real (p * 2 ^ nat (- e)) / real q\<bar> / 2 ^ nat (- e)"
      by (simp add: abs_divide)
    show ?thesis
      unfolding nf float_value_powi e_def [symmetric] pw eq by (rule le)
  qed
qed

lemma powi_less_imp_less: "(2::real) powi a < 2 powi b \<Longrightarrow> a < b"
proof (rule ccontr)
  assume lt: "(2::real) powi a < 2 powi b" and "\<not> a < b"
  then have "b \<le> a" by simp
  then have "(2::real) powi b \<le> 2 powi a" by (intro power_int_increasing) simp_all
  with lt show False by simp
qed

lemma floor_log2_le:
  assumes p: "0 < p" and q: "0 < q" and up: "real p / real q < 2 powi (L + 1)"
  shows "floor_log2 p q \<le> L"
proof -
  define fp where "fp = floorlog 2 p"
  define fq where "fq = floorlog 2 q"
  define k where "k = int fp - int fq"
  have lo: "2 ^ (fp - 1) \<le> p" and hi: "q < 2 ^ fq"
    using floorlog_bounds [of p 2] floorlog_bounds [of q 2] p q by (simp_all add: fp_def fq_def)
  have fp: "1 \<le> fp"
    using p by (simp add: fp_def floorlog_def)
  have "real (2 ^ (fp - 1)) / real (2 ^ fq) < real p / real q"
  proof -
    have "real (2 ^ (fp - 1)) / real (2 ^ fq) < real (2 ^ (fp - 1)) / real q"
      using hi q by (intro divide_strict_left_mono) (simp_all add: of_nat_less_iff [symmetric] del: of_nat_less_iff)
    also have "\<dots> \<le> real p / real q"
      using lo q by (intro divide_right_mono) (simp_all add: of_nat_le_iff [symmetric] del: of_nat_le_iff)
    finally show ?thesis .
  qed
  moreover have "(2::real) powi (k - 1) = real (2 ^ (fp - 1)) / real (2 ^ fq)"
  proof -
    have "k - 1 = int (fp - 1) - int fq"
      using fp by (simp add: k_def)
    then show ?thesis
      by (simp add: power_int_diff)
  qed
  ultimately have "(2::real) powi (k - 1) < 2 powi (L + 1)"
    using up by simp
  then have k1: "k - 1 \<le> L"
    using powi_less_imp_less [of "k - 1" "L + 1"] by simp
  have fl: "floor_log2 p q
              = (if (if 0 \<le> k then q * 2 ^ nat k \<le> p else q \<le> p * 2 ^ nat (- k))
                 then k else k - 1)"
    unfolding floor_log2_def Let_def k_def fp_def fq_def by (rule refl)
  show ?thesis
  proof (cases "if 0 \<le> k then q * 2 ^ nat k \<le> p else q \<le> p * 2 ^ nat (- k)")
    case True
    have "(2::real) powi k \<le> real p / real q"
    proof (cases "0 \<le> k")
      case nonneg: True
      with True have "real (q * 2 ^ nat k) \<le> real p"
        by (simp only: if_True of_nat_le_iff)
      then show ?thesis
        using q nonneg by (simp add: power_int_def field_simps)
    next
      case neg: False
      with True have "real q \<le> real (p * 2 ^ nat (- k))"
        by (simp only: if_False of_nat_le_iff)
      then show ?thesis
        using q neg by (simp add: power_int_def field_simps)
    qed
    with up have "(2::real) powi k < 2 powi (L + 1)" by simp
    then have "k \<le> L"
      using powi_less_imp_less [of k "L + 1"] by simp
    moreover have "floor_log2 p q = k"
      unfolding fl using True by (rule if_P)
    ultimately show ?thesis by simp
  next
    case False
    then have "floor_log2 p q = k - 1"
      unfolding fl by (rule if_not_P)
    then show ?thesis using k1 by simp
  qed
qed

lemma float_of_nat_100: "float_of_nat 100 = (7036874417766400, - 46)"
  by (simp add: float_defs)

lemma rate_accuracy:
  assumes t: "0 < t" and c: "c \<le> t"
  shows "\<exists>q. truediv c t = Inr q
           \<and> \<bar>float_value (fmul q (float_of_nat 100)) - real c / real t * 100\<bar> \<le> 1 / 2 ^ 45"
proof (cases "c = 0")
  case True
  have "truediv 0 t = Inr (0, 0)"
    using t by (simp add: truediv_def nearest_float_def)
  moreover have "float_value (fmul (0, 0) (float_of_nat 100)) = 0"
    by (simp add: float_of_nat_100 fmul_def nearest_float_def float_value_def)
  ultimately show ?thesis using True by simp
next
  case False
  then have cpos: "0 < c" by simp
  define e1 where "e1 = max (floor_log2 c t - 52) (- 1074)"
  define m1 where "m1 = round_half_even (c * 2 ^ nat (- e1)) t"
  define x1 where "x1 = float_value (m1, e1)"
  have "real c / real t < 2 powi (0 + 1)"
    using t c by (simp add: field_simps)
  then have "floor_log2 c t \<le> 0"
    using cpos t by (intro floor_log2_le)
  then have e1: "e1 \<le> - 52"
    by (simp add: e1_def)
  have nf1: "nearest_float c t = (m1, e1)"
    using cpos e1 by (simp add: nearest_float_def Let_def e1_def [symmetric] m1_def)
  have div: "truediv c t = Inr (m1, e1)"
    using t e1 by (simp add: truediv_def nf1)
  have "(2::real) powi e1 \<le> 2 powi (- 52)"
    using e1 by (intro power_int_increasing) simp_all
  then have half1: "(2::real) powi e1 / 2 \<le> 1 / 2 ^ 53"
    by (simp add: power_int_minus field_simps)
  have err1: "\<bar>x1 - real c / real t\<bar> \<le> 1 / 2 ^ 53"
    using nearest_float_error [OF cpos t] half1
    unfolding nf1 e1_def [symmetric] x1_def by linarith
  have x1: "x1 = real m1 / 2 ^ nat (- e1)"
    using e1 by (simp add: x1_def float_value_def)
  have x1_le: "x1 \<le> 1 + 1 / 2 ^ 53"
  proof -
    have "real c / real t \<le> 1" using t c by simp
    with err1 show ?thesis by linarith
  qed
  define p2 where "p2 = m1 * 7036874417766400"
  define q2 where "q2 = (2::nat) ^ nat (- (e1 + - 46))"
  have mul: "fmul (m1, e1) (float_of_nat 100) = nearest_float p2 q2"
    using e1 by (simp add: fmul_def float_of_nat_100 p2_def q2_def)
  have q2: "0 < q2" by (simp add: q2_def)
  have "nat (- (e1 + - 46)) = 46 + nat (- e1)"
    using e1 by simp
  then have q2_eq: "real q2 = 2 ^ 46 * 2 ^ nat (- e1)"
    by (simp add: q2_def power_add)
  have exact: "real p2 / real q2 = x1 * 100"
    unfolding q2_eq x1 p2_def by simp
  have scaled: "\<bar>x1 * 100 - real c / real t * 100\<bar> \<le> 100 / 2 ^ 53"
  proof -
    have eq: "x1 * 100 - real c / real t * 100 = (x1 - real c / real t) * 100"
      by (simp add: algebra_simps)
    have ab: "\<bar>(x1 - real c / real t) * 100\<bar> = \<bar>x1 - real c / real t\<bar> * 100"
      by (simp only: abs_mult abs_numeral)
    from err1 have "\<bar>x1 - real c / real t\<bar> * 100 \<le> 1 / 2 ^ 53 * 100"
      by (rule mult_right_mono) simp
    then show ?thesis unfolding eq ab by simp
  qed
  show ?thesis
  proof (cases "m1 = 0")
    case True
    then have "float_value (nearest_float p2 q2) = 0"
      by (simp add: p2_def nearest_float_def float_value_def)
    then have "float_value (fmul (m1, e1) (float_of_nat 100)) = 0"
      unfolding mul .
    moreover have "x1 = 0"
      using True by (simp add: x1)
    ultimately have "\<bar>float_value (fmul (m1, e1) (float_of_nat 100)) - real c / real t * 100\<bar>
                       \<le> 100 / 2 ^ 53"
      using scaled by simp
    then have "\<bar>float_value (fmul (m1, e1) (float_of_nat 100)) - real c / real t * 100\<bar>
                 \<le> 1 / 2 ^ 45"
      by simp
    with div show ?thesis by blast
  next
    case False
    then have p2: "0 < p2" by (simp add: p2_def)
    have "real p2 / real q2 < 2 powi (6 + 1)"
      unfolding exact using x1_le by simp
    then have "floor_log2 p2 q2 \<le> 6"
      using p2 q2 by (intro floor_log2_le)
    then have "max (floor_log2 p2 q2 - 52) (- 1074) \<le> - 46"
      by simp
    then have "(2::real) powi (max (floor_log2 p2 q2 - 52) (- 1074)) \<le> 2 powi (- 46)"
      by (intro power_int_increasing) simp_all
    then have half2: "(2::real) powi (max (floor_log2 p2 q2 - 52) (- 1074)) / 2 \<le> 1 / 2 ^ 47"
      by (simp add: power_int_minus field_simps)
    have err2: "\<bar>float_value (fmul (m1, e1) (float_of_nat 100)) - x1 * 100\<bar> \<le> 1 / 2 ^ 47"
      using nearest_float_error [OF p2 q2] half2 unfolding mul exact by linarith
    have "\<bar>float_value (fmul (m1, e1) (float_of_nat 100)) - real c / real t * 100\<bar>
            \<le> 1 / 2 ^ 47 + 100 / 2 ^ 53"
      using err2 scaled by linarith
    then have "\<bar>float_value (fmul (m1, e1) (float_of_nat 100)) - real c / real t * 100\<bar>
                 \<le> 1 / 2 ^ 45"
      by simp
    with div show ?thesis by blast
  qed
qed

lemma in_window_iff:
  "in_window start_date end_date
     = (\<lambda>b. (\<forall>t. start_date = Some t \<longrightarrow> t \<le> booking_date b)
             \<and> (\<forall>t. end_date = Some t \<longrightarrow> booking_date b \<le> t))"
  by (rule ext) (auto simp: in_window_def split: option.splits)

text \<open>
  Claim C9. \<^verbatim>\<open>get_booking_stats\<close> returns without an error. It counts the bookings
  whose booking date lies in the optional window (both bounds inclusive). With a
  positive total, the completion rate is the float that \<open>completed / total * 100\<close>
  computes (the division of the two counts rounded to a float, times the float 100,
  rounded again) and the no-show rate the float that \<open>no_shows / total * 100\<close> computes;
  each lies within \<open>2 ^ -45\<close> of the exact percentage. With a total of 0 both rates
  are 0.
\<close>

theorem booking_stats_rates:
  "let bs = filter (\<lambda>b. (\<forall>t. start_date = Some t \<longrightarrow> t \<le> booking_date b)
                        \<and> (\<forall>t. end_date = Some t \<longrightarrow> booking_date b \<le> t)) (bookings d);
       total = length bs;
       completed = length (filter (\<lambda>b. b_status b = COMPLETED) bs);
       no_shows = length (filter (\<lambda>b. b_status b = NO_SHOW) bs)
   in \<exists>st. get_booking_stats d start_date end_date = Inr st
        \<and> total_bookings st = total
        \<and> (0 < total \<longrightarrow>
              (\<exists>q. truediv completed total = Inr q
                    \<and> completion_rate st = float_value (fmul q (float_of_nat 100)))
            \<and> (\<exists>q. truediv no_shows total = Inr q
                    \<and> no_show_rate st = float_value (fmul q (float_of_nat 100)))
            \<and> \<bar>completion_rate st - real completed / real total * 100\<bar> \<le> 1 / 2 ^ 45
            \<and> \<bar>no_show_rate st - real no_shows / real total * 100\<bar> \<le> 1 / 2 ^ 45)
        \<and> (total = 0 \<longrightarrow> completion_rate st = 0 \<and> no_show_rate st = 0)"
proof -
  define bs where "bs = filter (in_window start_date end_date) (bookings d)"
  define total where "total = length bs"
  define completed where "completed = length (filter (\<lambda>b. b_status b = COMPLETED) bs)"
  define no_shows where "no_shows = length (filter (\<lambda>b. b_status b = NO_SHOW) bs)"
  have le: "completed \<le> total" "no_shows \<le> total"
    by (simp_all add: completed_def no_shows_def total_def)
  have main: "\<exists>st. get_booking_stats d start_date end_date = Inr st
        \<and> total_bookings st = total
        \<and> (0 < total \<longrightarrow>
              (\<exists>q. truediv completed total = Inr q
                    \<and> completion_rate st = float_value (fmul q (float_of_nat 100)))
            \<and> (\<exists>q. truediv no_shows total = Inr q
                    \<and> no_show_rate st = float_value (fmul q (float_of_nat 100)))
            \<and> \<bar>completion_rate st - real completed / real total * 100\<bar> \<le> 1 / 2 ^ 45
            \<and> \<bar>no_show_rate st - real no_shows / real total * 100\<bar> \<le> 1 / 2 ^ 45)
        \<and> (total = 0 \<longrightarrow> completion_rate st = 0 \<and> no_show_rate st = 0)"
  proof (cases "0 < total")
    case True
    from rate_accuracy [OF True le(1)] obtain q1 where q1: "truediv completed total = Inr q1"
      and a1: "\<bar>float_value (fmul q1 (float_of_nat 100)) - real completed / real total * 100\<bar>
                 \<le> 1 / 2 ^ 45"
      by blast
    from rate_accuracy [OF True le(2)] obtain q2 where q2: "truediv no_shows total = Inr q2"
      and a2: "\<bar>float_value (fmul q2 (float_of_nat 100)) - real no_shows / real total * 100\<bar>
                 \<le> 1 / 2 ^ 45"
      by blast
    have "get_booking_stats d start_date end_date
            = Inr \<lparr> total_bookings = total,
                    confirmed_bookings = length (filter (\<lambda>b. b_status b = CONFIRMED) bs),
                    cancelled_bookings = length (filter (\<lambda>b. b_status b = CANCELLED) bs),
                    pending_bookings = length (filter (\<lambda>b. b_status b = PENDING) bs),
                    completion_rate = float_value (fmul q1 (float_of_nat 100)),
                    no_show_rate = float_value (fmul q2 (float_of_nat 100)) \<rparr>"
      using True q1 q2
      unfolding get_booking_stats_def Let_def bs_def [symmetric] total_def [symmetric]
        completed_def [symmetric] no_shows_def [symmetric]
      by simp
    then show ?thesis using True q1 q2 a1 a2 by simp
  next
    case False
    have "get_booking_stats d start_date end_date
            = Inr \<lparr> total_bookings = total,
                    confirmed_bookings = length (filter (\<lambda>b. b_status b = CONFIRMED) bs),
                    cancelled_bookings = length (filter (\<lambda>b. b_status b = CANCELLED) bs),
                    pending_bookings = length (filter (\<lambda>b. b_status b = PENDING) bs),
                    completion_rate = 0,
                    no_show_rate = 0 \<rparr>"
      using False
      unfolding get_booking_stats_def Let_def bs_def [symmetric] total_def [symmetric]
      by simp
    then show ?thesis using False by simp
  qed
  show ?thesis
    unfolding Let_def in_window_iff [symmetric] bs_def [symmetric] total_def [symmetric]
      completed_def [symmetric] no_shows_def [symmetric]
    by (rule main)
qed

lemma ledger_counts:
  "filter (in_window None None) (bookings ledger) = bookings ledger"
  "filter (in_window (Some (hours 91)) None) (bookings ledger) = []"
  "length (bookings ledger) = 20"
  "bookings ledger \<noteq> []"
  "length (filter (\<lambda>b. b_status b = COMPLETED) (bookings ledger)) = 11"
  "length (filter (\<lambda>b. b_status b = NO_SHOW) (bookings ledger)) = 0"
  "length (filter (\<lambda>b. b_status b = CANCELLED) (bookings ledger)) = 9"
  "length (filter (\<lambda>b. b_status b = CONFIRMED) (bookings ledger)) = 0"
  "length (filter (\<lambda>b. b_status b = PENDING) (bookings ledger)) = 0"
  by (simp_all add: ledger_def seat_def in_window_def hours_def)

lemma float_55:
  "truediv 11 20 = Inr (4953959590107546, - 53)"
  "fmul (4953959590107546, - 53) (float_of_nat 100) = (7740561859543041, - 47)"
  "float_value (7740561859543041, - 47) = 55 + 1 / 2 ^ 47"
  by (simp_all add: float_defs)

lemma float_0:
  "truediv 0 20 = Inr (0, 0)"
  "fmul (0, 0) (float_of_nat 100) = (0, 0)"
  "float_value (0, 0) = 0"
  by (simp_all add: float_defs)

lemma ledger_stats:
  "get_booking_stats ledger None None
     = Inr \<lparr> total_bookings = 20, confirmed_bookings = 0, cancelled_bookings = 9,
             pending_bookings = 0, completion_rate = 55 + 1 / 2 ^ 47, no_show_rate = 0 \<rparr>"
  "get_booking_stats ledger (Some (hours 91)) None
     = Inr \<lparr> total_bookings = 0, confirmed_bookings = 0, cancelled_bookings = 0,
             pending_bookings = 0, completion_rate = 0, no_show_rate = 0 \<rparr>"
  by (simp_all add: get_booking_stats_def Let_def ledger_counts float_55 float_0)

theorem booking_stats_rates_witness:
  "get_booking_stats ledger None None
     = Inr \<lparr> total_bookings = 20, confirmed_bookings = 0, cancelled_bookings = 9,
             pending_bookings = 0, completion_rate = 55 + 1 / 2 ^ 47, no_show_rate = 0 \<rparr>
   \<and> truediv 11 20 = Inr (4953959590107546, - 53)
   \<and> fmul (4953959590107546, - 53) (float_of_nat 100) = (7740561859543041, - 47)
   \<and> float_value (7740561859543041, - 47) = 55 + 1 / 2 ^ 47
   \<and> get_booking_stats ledger (Some (hours 91)) None
     = Inr \<lparr> total_bookings = 0, confirmed_bookings = 0, cancelled_bookings = 0,
             pending_bookings = 0, completion_rate = 0, no_show_rate = 0 \<rparr>"
  using booking_stats_rates [where d = ledger and start_date = None and end_date = None]
    booking_stats_rates [where d = ledger and start_date = "Some (hours 91)" and end_date = None]
    ledger_stats float_55
  by simp

section \<open>The capacity invariant\<close>

text \<open>
  Each operation is shown to keep the integrity of the store and the capacity invariant;
  the operations on bookings other than \<^verbatim>\<open>create_booking\<close> replace one row by a row of
  the same session that is active only if the old one was.
\<close>

lemma fold_max_ge: "(a::int) \<le> fold max ids a \<and> (\<forall>x\<in>set ids. x \<le> fold max ids a)"
proof (induction ids arbitrary: a)
  case Nil
  then show ?case by simp
next
  case (Cons i ids)
  from Cons.IH [of "max i a"] show ?case by auto
qed

lemma fresh_id_gt: "x \<in> set ids \<Longrightarrow> x < fresh_id ids"
  using fold_max_ge [of 0 ids] by (auto simp: fresh_id_def)

lemma fresh_id_notin: "fresh_id ids \<notin> set ids"
  using fresh_id_gt [of "fresh_id ids" ids] by auto

lemma find_append_last: "\<forall>x\<in>set xs. \<not> P x \<Longrightarrow> P y \<Longrightarrow> find P (xs @ [y]) = Some y"
  by (induction xs) auto

lemma update_first_append_last:
  "\<forall>x\<in>set xs. \<not> P x \<Longrightarrow> P y \<Longrightarrow> update_first P f (xs @ [y]) = xs @ [f y]"
  by (induction xs) auto

lemma count_update_first_le:
  "find P xs = Some x \<Longrightarrow> (Q y \<Longrightarrow> Q x) \<Longrightarrow>
     length (filter Q (update_first P (\<lambda>_. y) xs)) \<le> length (filter Q xs)"
  by (induction xs) (auto split: if_splits)

lemma map_update_first_keep:
  "find P xs = Some x \<Longrightarrow> g y = g x \<Longrightarrow> map g (update_first P (\<lambda>_. y) xs) = map g xs"
  by (induction xs) (auto split: if_splits)

lemma count_cancel_bookings_le:
  "length (filter (\<lambda>b. session_id b = x \<and> active (b_status b)) (cancel_bookings clk k sid bs))
     \<le> length (filter (\<lambda>b. session_id b = x \<and> active (b_status b)) bs)"
  by (induction bs arbitrary: k) (auto simp: active_def intro: le_SucI)

lemma map_session_id_cancel_bookings:
  "map session_id (cancel_bookings clk k sid bs) = map session_id bs"
  by (induction bs arbitrary: k) auto

lemma bookings_ok_iff:
  "list_all (\<lambda>b. session_id b \<in> S) bs = (set (map session_id bs) \<subseteq> S)"
  by (induction bs) auto

lemma inv_bookings_shrink:
  assumes ok: "store_ok d" and cap: "capacity_inv d"
    and ids: "map session_id bs = map session_id (bookings d)"
    and le: "\<And>sid. length (filter (\<lambda>b. session_id b = sid \<and> active (b_status b)) bs)
                     \<le> get_session_booking_count d sid"
  shows "store_ok (d\<lparr>bookings := bs\<rparr>) \<and> capacity_inv (d\<lparr>bookings := bs\<rparr>)"
proof
  show "store_ok (d\<lparr>bookings := bs\<rparr>)"
    using ok ids by (simp add: store_ok_def bookings_ok_iff)
  have "within_capacity (d\<lparr>bookings := bs\<rparr>) s" if "within_capacity d s" for s
    using that le [of "s_id s"]
    by (auto simp: within_capacity_def class_obj_def get_session_booking_count_def
             split: option.splits)
  then show "capacity_inv (d\<lparr>bookings := bs\<rparr>)"
    using cap by (auto simp: capacity_inv_def list_all_iff)
qed

lemma inv_sessions_relabel:
  assumes ok: "store_ok d" and cap: "capacity_inv d"
    and ids: "map s_id ss = map s_id (sessions d)"
    and cls: "map class_id ss = map class_id (sessions d)"
  shows "store_ok (d\<lparr>sessions := ss\<rparr>) \<and> capacity_inv (d\<lparr>sessions := ss\<rparr>)"
proof
  show "store_ok (d\<lparr>sessions := ss\<rparr>)"
    using ok ids by (simp add: store_ok_def)
  have len: "length ss = length (sessions d)"
    using ids by (metis length_map)
  have "within_capacity (d\<lparr>sessions := ss\<rparr>) (ss ! n)" if n: "n < length ss" for n
  proof -
    have a: "s_id (ss ! n) = s_id (sessions d ! n)"
      using ids n len by (metis nth_map)
    have b: "class_id (ss ! n) = class_id (sessions d ! n)"
      using cls n len by (metis nth_map)
    have "within_capacity d (sessions d ! n)"
      using cap n len by (simp add: capacity_inv_def list_all_length)
    then show ?thesis
      using a b
      by (auto simp: within_capacity_def class_obj_def get_session_booking_count_def
               split: option.splits)
  qed
  then show "capacity_inv (d\<lparr>sessions := ss\<rparr>)"
    by (simp add: capacity_inv_def list_all_length)
qed

lemma inv_create_session:
  assumes ok: "store_ok d" and cap: "capacity_inv d"
  shows "store_ok (committed d (create_session d session_data creator))
         \<and> capacity_inv (committed d (create_session d session_data creator))"
proof (cases "create_session d session_data creator")
  case (Inl e)
  then show ?thesis using ok cap by (simp add: committed_def)
next
  case (Inr r)
  define new where "new = \<lparr> s_id = fresh_id (map s_id (sessions d)),
                            class_id = sc_class_id session_data,
                            start_time = sc_start_time session_data,
                            end_time = sc_end_time session_data,
                            location = sc_location session_data,
                            special_notes = sc_special_notes session_data,
                            s_status = SCHEDULED,
                            created_by = creator,
                            s_updated_at = None \<rparr>"
  define d' where "d' = d\<lparr>sessions := sessions d @ [new]\<rparr>"
  from Inr obtain c where c: "find (\<lambda>c. c_id c = sc_class_id session_data) (classes d) = Some c"
    and d': "committed d (create_session d session_data creator) = d'"
    by (auto simp: create_session_def committed_def Let_def new_def d'_def
             split: option.splits if_splits)
  have fresh: "s_id new \<notin> set (map s_id (sessions d))"
    unfolding new_def using fresh_id_notin [of "map s_id (sessions d)"] by simp
  have refs: "set (map session_id (bookings d)) \<subseteq> set (map s_id (sessions d))"
    using ok by (simp add: store_ok_def bookings_ok_iff)
  have ok': "store_ok d'"
    using ok fresh refs unfolding store_ok_def d'_def bookings_ok_iff by auto
  have "session_id x \<noteq> s_id new" if "x \<in> set (bookings d)" for x
    using that fresh refs by (metis image_eqI set_map subsetD)
  then have none: "get_session_booking_count d' (s_id new) = 0"
    by (auto simp: get_session_booking_count_def d'_def filter_empty_conv)
  have "c \<in> set (classes d)"
    using c by (auto dest: find_SomeD)
  then have "1 \<le> max_capacity c"
    using ok by (auto simp: store_ok_def list_all_iff)
  then have new_ok: "within_capacity d' new"
    using c none by (simp add: within_capacity_def class_obj_def d'_def new_def)
  have old_ok: "within_capacity d' s" if "within_capacity d s" for s
    using that
    by (auto simp: within_capacity_def class_obj_def get_session_booking_count_def d'_def
             split: option.splits)
  have "capacity_inv d'"
    using cap new_ok old_ok by (auto simp: capacity_inv_def list_all_iff d'_def)
  then show ?thesis using ok' d' by simp
qed

lemma same_id_same_session:
  "distinct (map s_id ss) \<Longrightarrow> x \<in> set ss \<Longrightarrow> y \<in> set ss \<Longrightarrow> s_id x = s_id y \<Longrightarrow> x = y"
  by (auto simp: distinct_map dest: inj_onD)

lemma inv_create_booking:
  assumes ok: "store_ok d" and cap: "capacity_inv d"
  shows "store_ok (committed d (create_booking d clk booking_data uid))
         \<and> capacity_inv (committed d (create_booking d clk booking_data uid))"
proof (cases "create_booking d clk booking_data uid")
  case (Inl e)
  then show ?thesis using ok cap by (simp add: committed_def)
next
  case (Inr r)
  define sid where "sid = bc_session_id booking_data"
  define b where "b = \<lparr> b_id = fresh_id (map b_id (bookings d)),
                        user_id = uid,
                        session_id = sid,
                        b_notes = bc_notes booking_data,
                        b_status = PENDING,
                        booking_date = clk 2,
                        admin_notes = None,
                        b_updated_at = None \<rparr>"
  define d' where "d' = d\<lparr>bookings := bookings d @ [b]\<rparr>"
  from Inr obtain s c where s: "get_session d sid = Some s"
    and c: "class_obj d s = Some c"
    and room: "int (get_session_booking_count d sid) < max_capacity c"
    and d': "committed d (create_booking d clk booking_data uid) = d'"
    by (auto simp: create_booking_def committed_def Let_def b_def d'_def sid_def
             split: option.splits if_splits)
  have s_in: "s \<in> set (sessions d)" and s_id: "s_id s = sid"
    using s by (auto simp: get_session_def dest: find_SomeD)
  have ok': "store_ok d'"
    using ok s_in s_id unfolding store_ok_def d'_def bookings_ok_iff
    by (auto simp: b_def)
  have count: "get_session_booking_count d' x
                 = (if x = sid then Suc (get_session_booking_count d x)
                    else get_session_booking_count d x)" for x
    by (auto simp: get_session_booking_count_def d'_def b_def active_def)
  have cls: "class_obj d' t = class_obj d t" for t
    by (simp add: class_obj_def d'_def)
  have "within_capacity d' t" if t: "t \<in> set (sessions d)" and w: "within_capacity d t" for t
  proof (cases "s_id t = sid")
    case True
    then have "t = s"
      using same_id_same_session [of "sessions d" t s] ok t s_in s_id
      by (simp add: store_ok_def)
    then show ?thesis
      using c room s_id by (simp add: within_capacity_def cls count)
  next
    case False
    then show ?thesis
      using w by (auto simp: within_capacity_def cls count split: option.splits)
  qed
  then have "capacity_inv d'"
    using cap by (auto simp: capacity_inv_def list_all_iff d'_def)
  then show ?thesis using ok' d' by simp
qed

lemma inv_update_session:
  assumes ok: "store_ok d" and cap: "capacity_inv d"
  shows "store_ok (committed d (update_session d clk sid session_data))
         \<and> capacity_inv (committed d (update_session d clk sid session_data))"
proof (cases "get_session d sid")
  case None
  then show ?thesis using ok cap by (simp add: committed_def update_session_def)
next
  case (Some s)
  define s' where "s' = s\<lparr>
      start_time := apply_upd (su_start_time session_data) (start_time s),
      end_time := apply_upd (su_end_time session_data) (end_time s),
      location := apply_upd (su_location session_data) (location s),
      special_notes := apply_upd (su_special_notes session_data) (special_notes s),
      s_status := apply_upd (su_status session_data) (s_status s),
      s_updated_at := Some (clk 0) \<rparr>"
  have a: "s_id s' = s_id s" and b: "class_id s' = class_id s"
    by (simp_all add: s'_def)
  have "committed d (update_session d clk sid session_data) = d
        \<or> committed d (update_session d clk sid session_data)
            = d\<lparr>sessions := update_first (\<lambda>x. s_id x = sid) (\<lambda>_. s') (sessions d)\<rparr>"
    using Some by (simp add: committed_def update_session_def Let_def s'_def)
  then show ?thesis
  proof
    assume "committed d (update_session d clk sid session_data) = d"
    then show ?thesis using ok cap by simp
  next
    assume eq: "committed d (update_session d clk sid session_data)
                  = d\<lparr>sessions := update_first (\<lambda>x. s_id x = sid) (\<lambda>_. s') (sessions d)\<rparr>"
    show ?thesis
      unfolding eq
      using inv_sessions_relabel [OF ok cap]
        map_update_first_keep [OF Some [unfolded get_session_def], of s_id s', OF a]
        map_update_first_keep [OF Some [unfolded get_session_def], of class_id s', OF b]
      by simp
  qed
qed

lemma inv_replace_booking:
  assumes ok: "store_ok d" and cap: "capacity_inv d"
    and b: "get_booking d bid = Some b"
    and sid: "session_id b' = session_id b"
    and act: "active (b_status b') \<Longrightarrow> active (b_status b)"
  shows "store_ok (d\<lparr>bookings := update_first (\<lambda>x. b_id x = bid) (\<lambda>_. b') (bookings d)\<rparr>)
         \<and> capacity_inv (d\<lparr>bookings := update_first (\<lambda>x. b_id x = bid) (\<lambda>_. b') (bookings d)\<rparr>)"
proof (rule inv_bookings_shrink [OF ok cap])
  show "map session_id (update_first (\<lambda>x. b_id x = bid) (\<lambda>_. b') (bookings d))
          = map session_id (bookings d)"
    using b sid unfolding get_booking_def by (rule map_update_first_keep)
next
  fix x
  have "length (filter (\<lambda>b. session_id b = x \<and> active (b_status b))
                  (update_first (\<lambda>x. b_id x = bid) (\<lambda>_. b') (bookings d)))
          \<le> length (filter (\<lambda>b. session_id b = x \<and> active (b_status b)) (bookings d))"
    using b [unfolded get_booking_def]
  proof (rule count_update_first_le)
    assume "session_id b' = x \<and> active (b_status b')"
    then show "session_id b = x \<and> active (b_status b)"
      using sid act by simp
  qed
  then show "length (filter (\<lambda>b. session_id b = x \<and> active (b_status b))
                  (update_first (\<lambda>x. b_id x = bid) (\<lambda>_. b') (bookings d)))
          \<le> get_session_booking_count d x"
    by (simp add: get_session_booking_count_def)
qed

lemma inv_cancel_session:
  assumes ok: "store_ok d" and cap: "capacity_inv d"
  shows "store_ok (fst (cancel_session d clk sid reason))
         \<and> capacity_inv (fst (cancel_session d clk sid reason))"
proof (cases "get_session d sid")
  case None
  then show ?thesis using ok cap by (simp add: cancel_session_def)
next
  case (Some s)
  define s' where "s' = s\<lparr> s_status := SESSION_CANCELLED,
      special_notes := Some (cancelled_note (special_notes s) reason),
      s_updated_at := Some (clk 0) \<rparr>"
  define d1 where "d1 = d\<lparr>sessions := update_first (\<lambda>x. s_id x = sid) (\<lambda>_. s') (sessions d)\<rparr>"
  have eq: "fst (cancel_session d clk sid reason)
              = d1\<lparr>bookings := cancel_bookings clk 1 sid (bookings d1)\<rparr>"
    using Some by (simp add: cancel_session_def Let_def s'_def d1_def)
  have d1: "store_ok d1 \<and> capacity_inv d1"
    unfolding d1_def
    using inv_sessions_relabel [OF ok cap]
      map_update_first_keep [OF Some [unfolded get_session_def], of s_id s']
      map_update_first_keep [OF Some [unfolded get_session_def], of class_id s']
    by (simp add: s'_def)
  show ?thesis
    unfolding eq
  proof (rule inv_bookings_shrink)
    show "store_ok d1" and "capacity_inv d1" using d1 by simp_all
    show "map session_id (cancel_bookings clk 1 sid (bookings d1)) = map session_id (bookings d1)"
      by (rule map_session_id_cancel_bookings)
    show "length (filter (\<lambda>b. session_id b = x \<and> active (b_status b))
                    (cancel_bookings clk 1 sid (bookings d1)))
            \<le> get_session_booking_count d1 x" for x
      unfolding get_session_booking_count_def by (rule count_cancel_bookings_le)
  qed
qed

lemma inv_mark_session_completed:
  assumes ok: "store_ok d" and cap: "capacity_inv d"
  shows "store_ok (fst (mark_session_completed d clk sid))
         \<and> capacity_inv (fst (mark_session_completed d clk sid))"
proof (cases "get_session d sid")
  case None
  then show ?thesis using ok cap by (simp add: mark_session_completed_def)
next
  case (Some s)
  define s' where "s' = s\<lparr> s_status := SESSION_COMPLETED, s_updated_at := Some (clk 0) \<rparr>"
  have eq: "fst (mark_session_completed d clk sid)
              = d\<lparr>sessions := update_first (\<lambda>x. s_id x = sid) (\<lambda>_. s') (sessions d)\<rparr>"
    using Some by (simp add: mark_session_completed_def s'_def)
  show ?thesis
    unfolding eq
    using inv_sessions_relabel [OF ok cap]
      map_update_first_keep [OF Some [unfolded get_session_def], of s_id s']
      map_update_first_keep [OF Some [unfolded get_session_def], of class_id s']
    by (simp add: s'_def)
qed

lemma inv_update_booking:
  assumes ok: "store_ok d" and cap: "capacity_inv d"
    and quiet: "\<not> reactivates d (UpdateBooking bid booking_data uid)"
  shows "store_ok (committed d (update_booking d clk bid booking_data uid))
         \<and> capacity_inv (committed d (update_booking d clk bid booking_data uid))"
proof (cases "get_booking d bid")
  case None
  then show ?thesis using ok cap by (simp add: committed_def update_booking_def)
next
  case (Some b)
  define b' where "b' = b\<lparr> b_status := apply_upd (bu_status booking_data) (b_status b),
      b_notes := apply_upd (bu_notes booking_data) (b_notes b),
      admin_notes := apply_upd (bu_admin_notes booking_data) (admin_notes b),
      b_updated_at := Some (clk 0) \<rparr>"
  have act: "active (b_status b') \<Longrightarrow> active (b_status b)"
    using quiet Some by (cases "bu_status booking_data") (auto simp: b'_def)
  have "committed d (update_booking d clk bid booking_data uid) = d
        \<or> committed d (update_booking d clk bid booking_data uid)
            = d\<lparr>bookings := update_first (\<lambda>x. b_id x = bid) (\<lambda>_. b') (bookings d)\<rparr>"
    using Some by (simp add: committed_def update_booking_def Let_def b'_def)
  then show ?thesis
    using ok cap inv_replace_booking [OF ok cap Some, of b'] act
    by (auto simp: b'_def)
qed

lemma inv_cancel_booking:
  assumes ok: "store_ok d" and cap: "capacity_inv d"
  shows "store_ok (committed d (cancel_booking d clk bid uid reason))
         \<and> capacity_inv (committed d (cancel_booking d clk bid uid reason))"
proof (cases "get_booking d bid")
  case None
  then show ?thesis using ok cap by (simp add: committed_def cancel_booking_def)
next
  case (Some b)
  define b' where "b' = (case reason of
      None \<Rightarrow> b\<lparr> b_status := CANCELLED, b_updated_at := Some (clk 1) \<rparr>
    | Some r \<Rightarrow>
        if r = [] then b\<lparr> b_status := CANCELLED, b_updated_at := Some (clk 1) \<rparr>
        else b\<lparr> b_status := CANCELLED, b_updated_at := Some (clk 1),
                admin_notes := Some (cancellation_note (admin_notes b) r) \<rparr>)"
  have f: "session_id b' = session_id b" "b_status b' = CANCELLED"
    by (simp_all add: b'_def split: option.splits)
  have "committed d (cancel_booking d clk bid uid reason) = d
        \<or> committed d (cancel_booking d clk bid uid reason)
            = d\<lparr>bookings := update_first (\<lambda>x. b_id x = bid) (\<lambda>_. b') (bookings d)\<rparr>"
    using Some
    by (auto simp: committed_def cancel_booking_def Let_def b'_def split: option.splits)
  then show ?thesis
    using ok cap inv_replace_booking [OF ok cap Some, of b'] f
    by (auto simp: active_def)
qed

lemma inv_confirm_booking:
  assumes ok: "store_ok d" and cap: "capacity_inv d"
  shows "store_ok (committed d (confirm_booking d clk bid))
         \<and> capacity_inv (committed d (confirm_booking d clk bid))"
proof (cases "get_booking d bid")
  case None
  then show ?thesis using ok cap by (simp add: committed_def confirm_booking_def)
next
  case (Some b)
  show ?thesis
  proof (cases "b_status b = PENDING")
    case True
    then show ?thesis
      using Some inv_replace_booking [OF ok cap Some,
          of "b\<lparr> b_status := CONFIRMED, b_updated_at := Some (clk 0) \<rparr>"]
      by (simp add: committed_def confirm_booking_def active_def)
  next
    case False
    then show ?thesis
      using Some ok cap by (simp add: committed_def confirm_booking_def)
  qed
qed

lemma inv_mark_attendance:
  assumes ok: "store_ok d" and cap: "capacity_inv d"
  shows "store_ok (committed d (mark_attendance d clk bid attended))
         \<and> capacity_inv (committed d (mark_attendance d clk bid attended))"
proof (cases "get_booking d bid")
  case None
  then show ?thesis using ok cap by (simp add: committed_def mark_attendance_def)
next
  case (Some b)
  define b' where "b' = b\<lparr> b_status := (if attended then COMPLETED else NO_SHOW),
                            b_updated_at := Some (clk 1) \<rparr>"
  have "committed d (mark_attendance d clk bid attended) = d
        \<or> committed d (mark_attendance d clk bid attended)
            = d\<lparr>bookings := update_first (\<lambda>x. b_id x = bid) (\<lambda>_. b') (bookings d)\<rparr>"
    using Some
    by (auto simp: committed_def mark_attendance_def b'_def split: option.splits)
  then show ?thesis
    using ok cap inv_replace_booking [OF ok cap Some, of b']
    by (auto simp: b'_def active_def)
qed

lemma inv_exec:
  assumes ok: "store_ok d" and cap: "capacity_inv d" and quiet: "\<not> reactivates d c"
  shows "store_ok (exec d clk c) \<and> capacity_inv (exec d clk c)"
proof (cases c)
  case (CreateSession session_data creator)
  then show ?thesis using inv_create_session [OF ok cap] by simp
next
  case (UpdateSession sid session_data)
  then show ?thesis using inv_update_session [OF ok cap] by simp
next
  case (CancelSession sid reason)
  then show ?thesis using inv_cancel_session [OF ok cap] by simp
next
  case (MarkSessionCompleted sid)
  then show ?thesis using inv_mark_session_completed [OF ok cap] by simp
next
  case (CreateBooking booking_data uid)
  then show ?thesis using inv_create_booking [OF ok cap] by simp
next
  case (UpdateBooking bid booking_data uid)
  then show ?thesis using inv_update_booking [OF ok cap] quiet by simp
next
  case (CancelBooking bid uid reason)
  then show ?thesis using inv_cancel_booking [OF ok cap] by simp
next
  case (ConfirmBooking bid)
  then show ?thesis using inv_confirm_booking [OF ok cap] by simp
next
  case (MarkAttendance bid attended)
  then show ?thesis using inv_mark_attendance [OF ok cap] by simp
qed

lemma inv_run:
  "store_ok d \<Longrightarrow> capacity_inv d \<Longrightarrow> no_reactivation d cs \<Longrightarrow>
     store_ok (run d cs) \<and> capacity_inv (run d cs)"
proof (induction cs arbitrary: d)
  case Nil
  then show ?case by simp
next
  case (Cons a cs)
  obtain clk c where a: "a = (clk, c)" by (cases a)
  from Cons.prems a have quiet: "\<not> reactivates d c" and rest: "no_reactivation (exec d clk c) cs"
    by simp_all
  from inv_exec [OF Cons.prems(1,2) quiet, of clk]
  have "store_ok (run (exec d clk c) cs) \<and> capacity_inv (run (exec d clk c) cs)"
    using Cons.IH rest by blast
  then show ?case using a by simp
qed

lemma create_booking_free_seat:
  assumes s: "get_session d sid = Some s" and st: "s_status s = SCHEDULED"
    and c: "class_obj d s = Some c" and cap1: "max_capacity c = 1"
    and empty: "get_session_booking_count d sid = 0"
    and early: "\<forall>k. clk k + hours 4 < start_time s"
  shows "create_booking d clk \<lparr> bc_session_id = sid, bc_notes = n \<rparr> u
           = Inr (d\<lparr>bookings := bookings d @
                      [\<lparr> b_id = fresh_id (map b_id (bookings d)), user_id = u, session_id = sid,
                         b_notes = n, b_status = PENDING, booking_date = clk 2,
                         admin_notes = None, b_updated_at = None \<rparr>]\<rparr>,
                  \<lparr> b_id = fresh_id (map b_id (bookings d)), user_id = u, session_id = sid,
                    b_notes = n, b_status = PENDING, booking_date = clk 2,
                    admin_notes = None, b_updated_at = None \<rparr>)"
proof -
  have "\<forall>b\<in>set (bookings d). \<not> (session_id b = sid \<and> active (b_status b))"
    using empty by (simp add: get_session_booking_count_def filter_empty_conv)
  then have nodup: "find (\<lambda>b. user_id b = u \<and> session_id b = sid \<and> active (b_status b))
                      (bookings d) = None"
    by (auto simp: find_None_iff)
  have "clk 0 < start_time s" and "\<not> start_time s - hours 2 < clk 1"
    using early [rule_format, of 0] early [rule_format, of 1] by (simp_all add: hours_def)
  then show ?thesis
    using s st c cap1 empty nodup by (simp add: create_booking_def Let_def)
qed

lemma capacity_one_scenario:
  assumes s: "get_session d sid = Some s" and st: "s_status s = SCHEDULED"
    and c: "class_obj d s = Some c" and cap1: "max_capacity c = 1"
    and empty: "get_session_booking_count d sid = 0"
    and t1: "\<forall>k. clk1 k + hours 4 < start_time s"
    and t2: "\<forall>k. clk2 k + hours 4 < start_time s"
    and t3: "\<forall>k. clk3 k + hours 4 < start_time s"
    and t4: "\<forall>k. clk4 k + hours 4 < start_time s"
  shows "\<exists>d1 b1 d2 d3 b3.
           create_booking d clk1 \<lparr> bc_session_id = sid, bc_notes = n1 \<rparr> u1 = Inr (d1, b1)
           \<and> b_status b1 = PENDING \<and> user_id b1 = u1
           \<and> create_booking d1 clk2 \<lparr> bc_session_id = sid, bc_notes = n2 \<rparr> u2
               = Inl CapacityExceeded
           \<and> cancel_booking d1 clk3 (b_id b1) (Some u1) reason = Inr (d2, True)
           \<and> create_booking d2 clk4 \<lparr> bc_session_id = sid, bc_notes = n2 \<rparr> u2 = Inr (d3, b3)
           \<and> b_status b3 = PENDING \<and> user_id b3 = u2"
proof -
  define b1 where "b1 = \<lparr> b_id = fresh_id (map b_id (bookings d)), user_id = u1,
      session_id = sid, b_notes = n1, b_status = PENDING, booking_date = clk1 2,
      admin_notes = None, b_updated_at = None \<rparr>"
  define d1 where "d1 = d\<lparr>bookings := bookings d @ [b1]\<rparr>"
  have step1: "create_booking d clk1 \<lparr> bc_session_id = sid, bc_notes = n1 \<rparr> u1 = Inr (d1, b1)"
    unfolding d1_def b1_def by (rule create_booking_free_seat [OF s st c cap1 empty t1])
  have s1: "get_session d1 sid = Some s" and c1: "class_obj d1 s = Some c"
    using s c by (simp_all add: d1_def get_session_def class_obj_def)
  have count1: "get_session_booking_count d1 sid = 1"
    using empty by (simp add: get_session_booking_count_def d1_def b1_def active_def)
  have "clk2 0 < start_time s"
    using t2 [rule_format, of 0] by (simp add: hours_def)
  then have step2: "create_booking d1 clk2 \<lparr> bc_session_id = sid, bc_notes = n2 \<rparr> u2
                      = Inl CapacityExceeded"
    using s1 st c1 cap1 count1 by (simp add: create_booking_def)
  have others: "\<forall>x\<in>set (bookings d). \<not> b_id x = b_id b1"
    using fresh_id_notin [of "map b_id (bookings d)"] by (auto simp: b1_def image_iff)
  have g1: "get_booking d1 (b_id b1) = Some b1"
    unfolding get_booking_def d1_def using others by (simp add: find_append_last)
  define b1c where "b1c = (case reason of
      None \<Rightarrow> b1\<lparr> b_status := CANCELLED, b_updated_at := Some (clk3 1) \<rparr>
    | Some r \<Rightarrow>
        if r = [] then b1\<lparr> b_status := CANCELLED, b_updated_at := Some (clk3 1) \<rparr>
        else b1\<lparr> b_status := CANCELLED, b_updated_at := Some (clk3 1),
                 admin_notes := Some (cancellation_note (admin_notes b1) r) \<rparr>)"
  define d2 where "d2 = d\<lparr>bookings := bookings d @ [b1c]\<rparr>"
  have b1c: "session_id b1c = sid" "b_status b1c = CANCELLED"
    by (simp_all add: b1c_def b1_def split: option.splits)
  have swap: "update_first (\<lambda>x. b_id x = b_id b1) (\<lambda>_. b1c) (bookings d @ [b1])
                = bookings d @ [b1c]"
    using others by (simp add: update_first_append_last)
  have "\<not> start_time s - hours 4 < clk3 0"
    using t3 [rule_format, of 0] by simp
  moreover have "\<not> not_owner (Some u1) b1"
    by (simp add: not_owner_def b1_def)
  moreover have "get_session d1 (session_id b1) = Some s"
    using s1 by (simp add: b1_def)
  ultimately have "cancel_booking d1 clk3 (b_id b1) (Some u1) reason
      = Inr (d1\<lparr>bookings := update_first (\<lambda>x. b_id x = b_id b1) (\<lambda>_. b1c) (bookings d1)\<rparr>,
             True)"
    using g1 by (simp add: cancel_booking_def Let_def b1c_def split: option.splits)
  moreover have "d1\<lparr>bookings := update_first (\<lambda>x. b_id x = b_id b1) (\<lambda>_. b1c) (bookings d1)\<rparr>
                   = d2"
    by (simp add: d1_def d2_def swap)
  ultimately have step3: "cancel_booking d1 clk3 (b_id b1) (Some u1) reason = Inr (d2, True)"
    by simp
  have s2: "get_session d2 sid = Some s" and c2: "class_obj d2 s = Some c"
    using s c by (simp_all add: d2_def get_session_def class_obj_def)
  have count2: "get_session_booking_count d2 sid = 0"
    using empty b1c by (simp add: get_session_booking_count_def d2_def active_def)
  define b3 where "b3 = \<lparr> b_id = fresh_id (map b_id (bookings d2)), user_id = u2,
      session_id = sid, b_notes = n2, b_status = PENDING, booking_date = clk4 2,
      admin_notes = None, b_updated_at = None \<rparr>"
  have step4: "create_booking d2 clk4 \<lparr> bc_session_id = sid, bc_notes = n2 \<rparr> u2
                 = Inr (d2\<lparr>bookings := bookings d2 @ [b3]\<rparr>, b3)"
    unfolding b3_def by (rule create_booking_free_seat [OF s2 st c2 cap1 count2 t4])
  have "b_status b1 = PENDING" "user_id b1 = u1" "b_status b3 = PENDING" "user_id b3 = u2"
    by (simp_all add: b1_def b3_def)
  with step1 step2 step3 step4 show ?thesis by blast
qed

lemmas run_defs = run.simps exec.simps committed_def create_session_def create_booking_def
  cancel_booking_def update_booking_def check_scheduling_conflicts_def time_clash_def
  not_owner_def morning_request_def empty_studio_def rebooked_def reconfirm_def
  capacity_inv_def within_capacity_def store_ok_def

text \<open>
  Claim C1, as stated: under any sequence of the operations every session keeps its
  active bookings within the capacity of its class. \<^verbatim>\<open>update_booking\<close> writes the
  status of its patch without a capacity check: after user 7 has booked and cancelled
  the only seat and user 8 has booked it, setting the booking of user 7 to CONFIRMED
  leaves two active bookings on a session of capacity 1.
\<close>

theorem capacity_exceeded_by_update_counterexample:
  "store_ok empty_studio \<and> capacity_inv empty_studio
   \<and> capacity_inv (run empty_studio rebooked)
   \<and> map b_status (bookings (run empty_studio (rebooked @ [reconfirm]))) = [CONFIRMED, PENDING]
   \<and> map session_id (bookings (run empty_studio (rebooked @ [reconfirm]))) = [1, 1]
   \<and> map s_id (sessions (run empty_studio (rebooked @ [reconfirm]))) = [1]
   \<and> map max_capacity (classes (run empty_studio (rebooked @ [reconfirm]))) = [1]
   \<and> \<not> capacity_inv (run empty_studio (rebooked @ [reconfirm]))"
  by (simp add: example_defs run_defs)

text \<open>
  Claim C1, amended. In a store that satisfies its integrity conditions, every sequence
  of the operations in which no \<^verbatim>\<open>update_booking\<close> call sets the status of a booking
  that is not active to PENDING or CONFIRMED keeps, for every session, the number of its
  PENDING or CONFIRMED bookings at most the capacity of its class. In particular, for a
  class of capacity 1 and a scheduled session without active bookings that starts more
  than four hours after every reading of the clock: the booking of user \<open>u1\<close> succeeds
  with status PENDING, the booking of user \<open>u2\<close> then fails with CapacityExceeded, the
  cancellation by \<open>u1\<close> succeeds, and a new booking of \<open>u2\<close> succeeds.
\<close>

theorem capacity_invariant_without_reactivation:
  "(store_ok d \<and> capacity_inv d \<and> no_reactivation d cs
      \<longrightarrow> capacity_inv (run d cs) \<and> store_ok (run d cs))
   \<and> (get_session e sid = Some s \<and> s_status s = SCHEDULED
       \<and> class_obj e s = Some c \<and> max_capacity c = 1
       \<and> get_session_booking_count e sid = 0
       \<and> (\<forall>k. clk1 k + hours 4 < start_time s) \<and> (\<forall>k. clk2 k + hours 4 < start_time s)
       \<and> (\<forall>k. clk3 k + hours 4 < start_time s) \<and> (\<forall>k. clk4 k + hours 4 < start_time s)
      \<longrightarrow> (\<exists>e1 b1 e2 e3 b3.
             create_booking e clk1 \<lparr> bc_session_id = sid, bc_notes = n1 \<rparr> u1 = Inr (e1, b1)
             \<and> b_status b1 = PENDING \<and> user_id b1 = u1
             \<and> create_booking e1 clk2 \<lparr> bc_session_id = sid, bc_notes = n2 \<rparr> u2
                 = Inl CapacityExceeded
             \<and> cancel_booking e1 clk3 (b_id b1) (Some u1) reason = Inr (e2, True)
             \<and> create_booking e2 clk4 \<lparr> bc_session_id = sid, bc_notes = n2 \<rparr> u2 = Inr (e3, b3)
             \<and> b_status b3 = PENDING \<and> user_id b3 = u2))"
  using inv_run [of d cs] capacity_one_scenario [of e sid s c clk1 clk2 clk3 clk4 n1 u1 n2 u2 reason]
  by blast

theorem capacity_invariant_without_reactivation_witness:
  "store_ok empty_studio \<and> capacity_inv empty_studio \<and> no_reactivation empty_studio rebooked
   \<and> capacity_inv (run empty_studio rebooked)
   \<and> map b_status (bookings (run empty_studio rebooked)) = [CANCELLED, PENDING]
   \<and> get_session studio 1 = Some morning \<and> class_obj studio morning = Some yoga
   \<and> (\<forall>k. fixed_clock (hours 90) k + hours 4 < start_time morning)
   \<and> create_booking studio (fixed_clock (hours 90)) seat_request 7 = Inr (studio_full, seat)
   \<and> create_booking studio_full (fixed_clock (hours 91)) seat_request 8 = Inl CapacityExceeded
   \<and> cancel_booking studio_full (fixed_clock (hours 92)) 1 (Some 7) None
       = Inr (studio\<lparr> bookings := [seat\<lparr> b_status := CANCELLED,
                                          b_updated_at := Some (hours 92) \<rparr>] \<rparr>, True)
   \<and> create_booking (studio\<lparr> bookings := [seat\<lparr> b_status := CANCELLED,
                                          b_updated_at := Some (hours 92) \<rparr>] \<rparr>)
         (fixed_clock (hours 93)) seat_request 8
       = Inr (studio\<lparr> bookings := [seat\<lparr> b_status := CANCELLED,
                                          b_updated_at := Some (hours 92) \<rparr>,
                                    seat\<lparr> b_id := 2, user_id := 8,
                                          booking_date := hours 93 \<rparr>] \<rparr>,
              seat\<lparr> b_id := 2, user_id := 8, booking_date := hours 93 \<rparr>)"
  using capacity_invariant_without_reactivation
    [where d = empty_studio and cs = rebooked and e = studio and sid = 1 and s = morning
       and c = yoga and ?clk1.0 = "fixed_clock (hours 90)" and ?clk2.0 = "fixed_clock (hours 91)"
       and ?clk3.0 = "fixed_clock (hours 92)" and ?clk4.0 = "fixed_clock (hours 93)"
       and ?n1.0 = None and ?n2.0 = None and ?u1.0 = 7 and ?u2.0 = 8 and reason = None]
  by (simp add: example_defs run_defs)

end
